theory Spec2Isabelle
  imports Complex_Main
begin

section \<open>Data model\<close>

text \<open>
  The module \<^verbatim>\<open>gpflow/conditionals/mo_sample_conditionals.py\<close> holds one function,
  \<^verbatim>\<open>_sample_conditional\<close>, registered with the \<^verbatim>\<open>sample_conditional\<close> dispatcher for
  the type tuple \<^verbatim>\<open>(object, MixedKernelSharedMof, SeparateMixedMok, object)\<close>. It calls
  four collaborators: \<^verbatim>\<open>conditional.dispatch\<close>, the implementation that call returns,
  \<^verbatim>\<open>sample_mvn\<close> and \<^verbatim>\<open>mix_latent_gp\<close>, and the library function \<^verbatim>\<open>tf.tensordot\<close>.
\<close>

subsection \<open>Classes and errors\<close>

text \<open>
  The classes the module names, and any other class by its name. \<^verbatim>\<open>object\<close> is the
  class every dispatcher slot accepts.
\<close>

datatype pytype =
    Object
  | MixedKernelSharedMof
  | SeparateIndependentMof
  | SeparateIndependentMok
  | SeparateMixedMok
  | OtherClass string

type_synonym signature = "pytype \<times> pytype \<times> pytype \<times> pytype"

text \<open>
  The exceptions: \<^verbatim>\<open>NotImplementedError\<close> with its message is the only one the function
  raises itself; the others come out of the collaborators and pass through unchanged.
\<close>

datatype error =
    NotImplementedError string
  | DispatchError
  | ShapeMismatchError
  | OtherError string

subsection \<open>Tensors\<close>

text \<open>
  A tensor is its shape and its entries in row-major order. The type of the entries is
  a parameter: the real numbers, where rounding is left out of the model, or the
  floating-point values below, where infinities and NaN are entries too.
\<close>

record 'a tensor =
  shape :: "nat list"
  entries :: "'a list"

text \<open>
  The values of IEEE arithmetic without rounding or overflow: a finite value is a real
  number (the two zeros are one), and there are the two infinities and NaN. Sums and
  products follow the standard: NaN absorbs, the sum of opposite infinities is NaN,
  and zero times an infinity is NaN.
\<close>

datatype ieee = Finite real | PosInf | NegInf | NaN

fun ieee_add :: "ieee \<Rightarrow> ieee \<Rightarrow> ieee" where
  "ieee_add (Finite x) (Finite y) = Finite (x + y)"
| "ieee_add NaN _ = NaN"
| "ieee_add _ NaN = NaN"
| "ieee_add PosInf NegInf = NaN"
| "ieee_add NegInf PosInf = NaN"
| "ieee_add PosInf _ = PosInf"
| "ieee_add _ PosInf = PosInf"
| "ieee_add NegInf _ = NegInf"
| "ieee_add _ NegInf = NegInf"

definition scale_inf :: "bool \<Rightarrow> real \<Rightarrow> ieee" where
  "scale_inf positive x =
     (if x = 0 then NaN else if (0 < x) = positive then PosInf else NegInf)"

fun ieee_mul :: "ieee \<Rightarrow> ieee \<Rightarrow> ieee" where
  "ieee_mul (Finite x) (Finite y) = Finite (x * y)"
| "ieee_mul NaN _ = NaN"
| "ieee_mul _ NaN = NaN"
| "ieee_mul PosInf (Finite y) = scale_inf True y"
| "ieee_mul NegInf (Finite y) = scale_inf False y"
| "ieee_mul (Finite x) PosInf = scale_inf True x"
| "ieee_mul (Finite x) NegInf = scale_inf False x"
| "ieee_mul PosInf PosInf = PosInf"
| "ieee_mul NegInf NegInf = PosInf"
| "ieee_mul PosInf NegInf = NegInf"
| "ieee_mul NegInf PosInf = NegInf"

instantiation ieee :: comm_monoid_add
begin

definition zero_ieee_def: "0 = Finite 0"

definition plus_ieee_def: "a + b = ieee_add a b"

instance
proof
  fix a b c :: ieee
  show "a + b + c = a + (b + c)"
    by (cases a; cases b; cases c) (simp_all add: plus_ieee_def)
  show "a + b = b + a"
    by (cases a; cases b) (simp_all add: plus_ieee_def)
  show "0 + a = a"
    by (cases a) (simp_all add: plus_ieee_def zero_ieee_def)
qed

end

instantiation ieee :: "{one, times}"
begin

definition one_ieee_def: "1 = Finite 1"

definition times_ieee_def: "a * b = ieee_mul a b"

instance ..

end

fun is_finite :: "ieee \<Rightarrow> bool" where
  "is_finite (Finite x) = True"
| "is_finite _ = False"

definition wf_tensor :: "'a tensor \<Rightarrow> bool" where
  "wf_tensor t = (length (entries t) = prod_list (shape t))"

text \<open>The row-major position of a multi-index, and the entry read there.\<close>

fun flat_index :: "nat list \<Rightarrow> nat list \<Rightarrow> nat" where
  "flat_index (d # ds) (i # idx) = i * prod_list ds + flat_index ds idx"
| "flat_index _ _ = 0"

fun valid_index :: "nat list \<Rightarrow> nat list \<Rightarrow> bool" where
  "valid_index [] [] = True"
| "valid_index (d # ds) (i # idx) = (i < d \<and> valid_index ds idx)"
| "valid_index _ _ = False"

definition entry_at :: "'a tensor \<Rightarrow> nat list \<Rightarrow> 'a" where
  "entry_at t idx = entries t ! flat_index (shape t) idx"

text \<open>
  The vectors along the last axis, one for each position of the leading axes.
\<close>

definition rows_of :: "'a tensor \<Rightarrow> 'a list list" where
  "rows_of t =
     (let L = last (shape t)
      in map (\<lambda>i. take L (drop (i * L) (entries t))) [0..<prod_list (butlast (shape t))])"

definition dot :: "'a::{monoid_add,times} list \<Rightarrow> 'a list \<Rightarrow> 'a" where
  "dot xs ys = sum_list (map2 (*) xs ys)"

text \<open>
  \<^verbatim>\<open>tf.tensordot\<close> with the axes the function passes, axis \<open>-1\<close> of \<open>a\<close> and axis \<open>-1\<close>
  of \<open>b\<close>: the last axis of \<open>a\<close> is contracted with the last axis of \<open>b\<close>, and the
  result has the leading axes of \<open>a\<close> followed by the leading axes of \<open>b\<close>. A tensor of
  rank 0 has no last axis, and two last axes of different extent do not contract: both
  are errors of the library.
\<close>

definition tensordot_last ::
  "'a::{monoid_add,times} tensor \<Rightarrow> 'a tensor \<Rightarrow> error + 'a tensor" where
  "tensordot_last a b =
     (if shape a = [] \<or> shape b = [] then Inl ShapeMismatchError
      else if last (shape a) \<noteq> last (shape b) then Inl ShapeMismatchError
      else Inr \<lparr>shape = butlast (shape a) @ butlast (shape b),
                entries = concat (map (\<lambda>r. map (dot r) (rows_of b)) (rows_of a))\<rparr>)"

subsection \<open>Arguments\<close>

text \<open>
  A Python value is its runtime class and its content, which the function never looks
  at. A kernel moreover has the attribute \<^verbatim>\<open>W\<close>, the mixing matrix.
\<close>

record 'v pyobj =
  cls :: pytype
  content :: 'v

record ('a, 'v) kernel = "'v pyobj" +
  W :: "'a tensor"

text \<open>The keyword arguments, with the defaults of the signature.\<close>

record 'v kwargs =
  full_cov :: bool
  full_output_cov :: bool
  q_sqrt :: "'v pyobj option"
  white :: bool
  num_samples :: "int option"

definition default_kwargs :: "'v kwargs" where
  "default_kwargs =
     \<lparr>full_cov = False, full_output_cov = False, q_sqrt = None, white = False,
      num_samples = None\<rparr>"

subsection \<open>Collaborators and their calls\<close>

text \<open>
  An implementation of \<^verbatim>\<open>conditional\<close> takes \<^verbatim>\<open>Xnew, feat, kern, f\<close> and the keywords
  \<^verbatim>\<open>white\<close> and \<^verbatim>\<open>q_sqrt\<close>, and returns the pair of moments.
\<close>

type_synonym ('a, 'v) cond_impl =
  "'v pyobj \<Rightarrow> 'v pyobj \<Rightarrow> ('a, 'v) kernel \<Rightarrow> 'v pyobj \<Rightarrow> bool \<Rightarrow> 'v pyobj option
     \<Rightarrow> error + ('a tensor \<times> 'a tensor)"

text \<open>
  The collaborators that are not in this module are parameters of the model:
  \<^verbatim>\<open>conditional.dispatch\<close>, \<^verbatim>\<open>sample_mvn\<close> (one value of the parameter is one
  realisation of the noise) and \<^verbatim>\<open>mix_latent_gp\<close>.
\<close>

record ('a, 'v) env =
  dispatch :: "signature \<Rightarrow> error + ('a, 'v) cond_impl"
  sample_mvn :: "'a tensor \<Rightarrow> 'a tensor \<Rightarrow> string \<Rightarrow> int option \<Rightarrow> error + 'a tensor"
  mix_latent_gp ::
    "'a tensor \<Rightarrow> 'a tensor \<Rightarrow> 'a tensor \<Rightarrow> bool \<Rightarrow> bool \<Rightarrow> error + ('a tensor \<times> 'a tensor)"

text \<open>Every call the function makes is recorded, with its arguments, in the order made.\<close>

datatype ('a, 'v) event =
    LogDebug string
  | CallDispatch signature
  | CallConditional "'v pyobj" "'v pyobj" "('a, 'v) kernel" "'v pyobj" bool "'v pyobj option"
  | CallSampleMvn "'a tensor" "'a tensor" string "int option"
  | CallMixLatentGp "'a tensor" "'a tensor" "'a tensor" bool bool
  | CallTensordot "'a tensor" "'a tensor"

text \<open>
  A computation is its outcome, a value or the exception raised, and the calls made up
  to there. An exception ends the computation: what follows is not run.
\<close>

type_synonym ('e, 'r) comp = "(error + 'r) \<times> 'e list"

definition call :: "'e \<Rightarrow> error + 'r \<Rightarrow> ('e, 'r) comp" where
  "call ev r = (r, [ev])"

definition raise :: "error \<Rightarrow> ('e, 'r) comp" where
  "raise e = (Inl e, [])"

definition return :: "'r \<Rightarrow> ('e, 'r) comp" where
  "return x = (Inr x, [])"

definition and_then :: "('e, 'r) comp \<Rightarrow> ('r \<Rightarrow> ('e, 's) comp) \<Rightarrow> ('e, 's) comp" where
  "and_then m k =
     (case fst m of
        Inl e \<Rightarrow> (Inl e, snd m)
      | Inr x \<Rightarrow> (fst (k x), snd m @ snd (k x)))"

section \<open>The function\<close>

definition inner_signature :: signature where
  "inner_signature = (Object, SeparateIndependentMof, SeparateIndependentMok, Object)"

definition registered_signature :: signature where
  "registered_signature = (Object, MixedKernelSharedMof, SeparateMixedMok, Object)"

definition debug_message :: string where
  "debug_message = ''(MixedKernelSharedMof, MixedKernelSeparateMof), SeparateMixedMok''"

text \<open>
  \<^verbatim>\<open>_sample_conditional\<close>, statement by statement:
  \<^verbatim>\<open>
  logger.debug("(MixedKernelSharedMof, MixedKernelSeparateMof), SeparateMixedMok")
  if full_cov:
      raise NotImplementedError("full_cov not yet implemented")
  if full_output_cov:
      raise NotImplementedError("full_output_cov not yet implemented")
  ind_conditional = conditional.dispatch(object, SeparateIndependentMof, SeparateIndependentMok, object)
  g_mu, g_var = ind_conditional(Xnew, feat, kern, f, white=white, q_sqrt=q_sqrt)
  g_sample = sample_mvn(g_mu, g_var, "diag", num_samples=num_samples)
  f_mu, f_var = mix_latent_gp(kern.W, g_mu, g_var, full_cov, full_output_cov)
  f_sample = tf.tensordot(g_sample, kern.W, [[-1], [-1]])
  return f_sample, f_mu, f_var
  \<close>
  Each call is recorded as it is made; an exception of a collaborator ends the run with
  that exception.
\<close>

definition sample_conditional_impl ::
  "('a::{monoid_add,times}, 'v) env \<Rightarrow> 'v pyobj \<Rightarrow> 'v pyobj \<Rightarrow> ('a, 'v) kernel \<Rightarrow> 'v pyobj
     \<Rightarrow> 'v kwargs \<Rightarrow> (('a, 'v) event, 'a tensor \<times> 'a tensor \<times> 'a tensor) comp" where
  "sample_conditional_impl env Xnew feat kern f kw =
     and_then (call (LogDebug debug_message) (Inr ())) (\<lambda>_.
     if full_cov kw then raise (NotImplementedError ''full_cov not yet implemented'')
     else if full_output_cov kw then
       raise (NotImplementedError ''full_output_cov not yet implemented'')
     else
       and_then (call (CallDispatch inner_signature) (dispatch env inner_signature))
         (\<lambda>ind_conditional.
       and_then (call (CallConditional Xnew feat kern f (white kw) (q_sqrt kw))
                   (ind_conditional Xnew feat kern f (white kw) (q_sqrt kw)))
         (\<lambda>(g_mu, g_var).
       and_then (call (CallSampleMvn g_mu g_var ''diag'' (num_samples kw))
                   (sample_mvn env g_mu g_var ''diag'' (num_samples kw)))
         (\<lambda>g_sample.
       and_then (call (CallMixLatentGp (W kern) g_mu g_var (full_cov kw) (full_output_cov kw))
                   (mix_latent_gp env (W kern) g_mu g_var (full_cov kw) (full_output_cov kw)))
         (\<lambda>(f_mu, f_var).
       and_then (call (CallTensordot g_sample (W kern)) (tensordot_last g_sample (W kern)))
         (\<lambda>f_sample.
       return (f_sample, f_mu, f_var)))))))"

definition outcome :: "('e, 'r) comp \<Rightarrow> error + 'r" where
  "outcome m = fst m"

definition calls :: "('e, 'r) comp \<Rightarrow> 'e list" where
  "calls m = snd m"

text \<open>Which recorded calls are dispatches, and which are draws of a sample.\<close>

fun is_dispatch :: "('a, 'v) event \<Rightarrow> bool" where
  "is_dispatch (CallDispatch _) = True"
| "is_dispatch _ = False"

fun is_sample_mvn :: "('a, 'v) event \<Rightarrow> bool" where
  "is_sample_mvn (CallSampleMvn _ _ _ _) = True"
| "is_sample_mvn _ = False"

section \<open>The collaborators' contracts\<close>

subsection \<open>The sample axis\<close>

text \<open>
  The axis \<open>S\<close> of a sample: there when \<^verbatim>\<open>num_samples\<close> is not \<^verbatim>\<open>None\<close>, and then of
  that extent.
\<close>

definition sample_axis :: "int option \<Rightarrow> nat list" where
  "sample_axis ns = (case ns of None \<Rightarrow> [] | Some s \<Rightarrow> [nat s])"

text \<open>
  Modelled from the spec: \<^verbatim>\<open>sample_mvn\<close> of \<^verbatim>\<open>gpflow/conditionals/util.py\<close>, which is not
  among the sources, with the covariance structure \<^verbatim>\<open>"diag"\<close>. The sample is
  \<open>mu + sqrt var * eps\<close> entry by entry, repeated \<open>S\<close> times with fresh noise along a new
  axis in front of the last two; \<open>eps k\<close> is the standard normal draw for position \<open>k\<close> of
  the result. The moments have rank 2 at least and the same shape, and a negative
  number of samples is refused.
\<close>

definition sample_mvn_diag ::
  "(nat \<Rightarrow> real) \<Rightarrow> real tensor \<Rightarrow> real tensor \<Rightarrow> int option \<Rightarrow> error + real tensor" where
  "sample_mvn_diag eps mu var ns =
     (if length (shape mu) < 2 \<or> shape var \<noteq> shape mu \<or> \<not> wf_tensor mu \<or> \<not> wf_tensor var
      then Inl ShapeMismatchError
      else if (case ns of None \<Rightarrow> False | Some s \<Rightarrow> s < 0)
      then Inl (OtherError ''num_samples is negative'')
      else
        let r = length (shape mu) - 2;
            lead = take r (shape mu);
            block = prod_list (drop r (shape mu));
            S = (case ns of None \<Rightarrow> 1 | Some s \<Rightarrow> nat s)
        in Inr \<lparr>shape = lead @ sample_axis ns @ drop r (shape mu),
                  entries =
                    map (\<lambda>k. let j = (k div (S * block)) * block + k mod block
                             in entries mu ! j + sqrt (entries var ! j) * eps k)
                      [0..<prod_list lead * S * block]\<rparr>)"

text \<open>
  What the function needs of \<^verbatim>\<open>sample_mvn\<close>: a sample drawn with \<^verbatim>\<open>"diag"\<close> from moments
  of shape \<open>[..., N, L]\<close> has the shape \<open>[..., (S), N, L]\<close>.
\<close>

definition sample_shape :: "nat list \<Rightarrow> int option \<Rightarrow> nat list" where
  "sample_shape ds ns =
     take (length ds - 2) ds @ sample_axis ns @ drop (length ds - 2) ds"

subsection \<open>The mixing transform\<close>

definition square_entries :: "'a::times tensor \<Rightarrow> 'a tensor" where
  "square_entries t = t\<lparr>entries := map (\<lambda>x. x * x) (entries t)\<rparr>"

text \<open>
  Modelled from the spec: \<^verbatim>\<open>mix_latent_gp\<close> of \<^verbatim>\<open>gpflow/conditionals/util.py\<close>, which is
  not among the sources, in the diagonal mode (both covariance flags false). The mean
  is \<open>mu @ W\<^sup>T\<close>, the contraction of the last axis of \<open>mu\<close> with the last axis of \<open>W\<close>; the
  variance is the same contraction of \<open>var\<close> with the squared entries of \<open>W\<close>.
\<close>

definition mix_latent_gp_diag ::
  "'a::{monoid_add,times} tensor \<Rightarrow> 'a tensor \<Rightarrow> 'a tensor \<Rightarrow> error + ('a tensor \<times> 'a tensor)" where
  "mix_latent_gp_diag W' mu var =
     (case tensordot_last mu W' of
        Inl e \<Rightarrow> Inl e
      | Inr f_mu \<Rightarrow>
          (case tensordot_last var (square_entries W') of
             Inl e \<Rightarrow> Inl e
           | Inr f_var \<Rightarrow> Inr (f_mu, f_var)))"

text \<open>The identity mixing matrix on \<open>L\<close> latents: \<open>P = L\<close> and \<open>W[p, l] = 1\<close> exactly when \<open>p = l\<close>.\<close>

definition identity_matrix :: "nat \<Rightarrow> 'a::{zero,one} tensor" where
  "identity_matrix L =
     \<lparr>shape = [L, L],
      entries = concat (map (\<lambda>p. map (\<lambda>l. if p = l then 1 else 0) [0..<L]) [0..<L])\<rparr>"

subsection \<open>Finite entries\<close>

text \<open>
  A tensor of floating-point values is finite when none of its entries is an infinity
  or NaN; a tensor of reals is a finite tensor of floating-point values.
\<close>

definition all_finite :: "ieee tensor \<Rightarrow> bool" where
  "all_finite t = list_all is_finite (entries t)"

definition of_reals :: "real tensor \<Rightarrow> ieee tensor" where
  "of_reals t = \<lparr>shape = shape t, entries = map Finite (entries t)\<rparr>"

fun real_of :: "ieee \<Rightarrow> real" where
  "real_of (Finite x) = x"
| "real_of _ = 0"

definition to_reals :: "ieee tensor \<Rightarrow> real tensor" where
  "to_reals t = \<lparr>shape = shape t, entries = map real_of (entries t)\<rparr>"

subsection \<open>The dispatch registry\<close>

text \<open>
  Modelled from the spec: the Dispatch Registry. Its code (\<^verbatim>\<open>gpflow/conditionals/dispatch.py\<close>
  and the dispatcher class it instantiates) is not among the sources. The registry
  holds, for each of the two operations, implementations under type-tuple patterns. A
  slot of a pattern matches a type when it is the wildcard \<^verbatim>\<open>object\<close>, that very type, or
  a class the type is a subtype of. The class hierarchy lives in modules that are not
  among the sources, so the relation \<^verbatim>\<open>issubclass\<close> is a parameter. Among the matching
  patterns the most specific wins: a slot that names the class outranks a wildcard
  slot, and the leftmost slot where two patterns differ decides. Registering a pattern
  again replaces its implementation. With no matching pattern the dispatch fails.
\<close>

datatype operation = Conditional | SampleConditional

type_synonym 'i registry = "(operation \<times> signature \<times> 'i) list"

definition slot_matches :: "(pytype \<Rightarrow> pytype \<Rightarrow> bool) \<Rightarrow> pytype \<Rightarrow> pytype \<Rightarrow> bool" where
  "slot_matches issubclass pat t = (pat = Object \<or> pat = t \<or> issubclass t pat)"

fun matches :: "(pytype \<Rightarrow> pytype \<Rightarrow> bool) \<Rightarrow> signature \<Rightarrow> signature \<Rightarrow> bool" where
  "matches issubclass (p1, p2, p3, p4) (t1, t2, t3, t4) =
     (slot_matches issubclass p1 t1 \<and> slot_matches issubclass p2 t2
      \<and> slot_matches issubclass p3 t3 \<and> slot_matches issubclass p4 t4)"

definition slot_rank :: "pytype \<Rightarrow> nat" where
  "slot_rank pat = (if pat = Object then 0 else 1)"

fun specificity :: "signature \<Rightarrow> nat list" where
  "specificity (p1, p2, p3, p4) = [slot_rank p1, slot_rank p2, slot_rank p3, slot_rank p4]"

fun lex_greater :: "nat list \<Rightarrow> nat list \<Rightarrow> bool" where
  "lex_greater (x # xs) (y # ys) = (y < x \<or> (x = y \<and> lex_greater xs ys))"
| "lex_greater _ _ = False"

definition more_specific :: "signature \<Rightarrow> signature \<Rightarrow> bool" where
  "more_specific s s' = lex_greater (specificity s) (specificity s')"

definition register :: "operation \<Rightarrow> signature \<Rightarrow> 'i \<Rightarrow> 'i registry \<Rightarrow> 'i registry" where
  "register opn pat impl reg =
     (opn, pat, impl) # filter (\<lambda>e. \<not> (fst e = opn \<and> fst (snd e) = pat)) reg"

fun best :: "(signature \<times> 'i) list \<Rightarrow> (signature \<times> 'i) option" where
  "best [] = None"
| "best (c # cs) =
     (case best cs of
        None \<Rightarrow> Some c
      | Some d \<Rightarrow> if more_specific (fst d) (fst c) then Some d else Some c)"

definition candidates ::
  "(pytype \<Rightarrow> pytype \<Rightarrow> bool) \<Rightarrow> 'i registry \<Rightarrow> operation \<Rightarrow> signature \<Rightarrow> (signature \<times> 'i) list" where
  "candidates issubclass reg opn types =
     map snd (filter (\<lambda>e. fst e = opn \<and> matches issubclass (fst (snd e)) types) reg)"

definition dispatch_registry ::
  "(pytype \<Rightarrow> pytype \<Rightarrow> bool) \<Rightarrow> 'i registry \<Rightarrow> operation \<Rightarrow> signature \<Rightarrow> error + 'i" where
  "dispatch_registry issubclass reg opn types =
     (case best (candidates issubclass reg opn types) of
        None \<Rightarrow> Inl DispatchError
      | Some c \<Rightarrow> Inr (snd c))"

definition wildcard_signature :: signature where
  "wildcard_signature = (Object, Object, Object, Object)"

section \<open>An example call\<close>

text \<open>Two query points, two latents, three outputs, two samples; the entries are reals.\<close>

definition example_Xnew :: "unit pyobj" where
  "example_Xnew = \<lparr>cls = OtherClass ''Tensor'', content = ()\<rparr>"

definition example_feat :: "unit pyobj" where
  "example_feat = \<lparr>cls = MixedKernelSharedMof, content = ()\<rparr>"

definition example_f :: "unit pyobj" where
  "example_f = \<lparr>cls = OtherClass ''Tensor'', content = ()\<rparr>"

definition example_W :: "real tensor" where
  "example_W = \<lparr>shape = [3, 2], entries = [1, 0, 0, 1, 1, 2]\<rparr>"

definition example_kern :: "(real, unit) kernel" where
  "example_kern = \<lparr>cls = SeparateMixedMok, content = (), W = example_W\<rparr>"

definition example_g_mu :: "real tensor" where
  "example_g_mu = \<lparr>shape = [2, 2], entries = [1, 2, 3, 4]\<rparr>"

definition example_g_var :: "real tensor" where
  "example_g_var = \<lparr>shape = [2, 2], entries = [4, 1, 0, 4]\<rparr>"

definition example_conditional :: "(real, unit) cond_impl" where
  "example_conditional Xnew feat kern f wh qs = Inr (example_g_mu, example_g_var)"

definition example_env :: "(real, unit) env" where
  "example_env =
     \<lparr>dispatch = (\<lambda>s. if s = inner_signature then Inr example_conditional else Inl DispatchError),
      sample_mvn = (\<lambda>mu var tag ns.
         if tag = ''diag'' then sample_mvn_diag (\<lambda>k. 1) mu var ns
         else Inl (OtherError ''not modelled'')),
      mix_latent_gp = (\<lambda>W' mu var fc foc.
         if \<not> fc \<and> \<not> foc then mix_latent_gp_diag W' mu var
         else Inl (OtherError ''not modelled''))\<rparr>"

definition example_kwargs :: "unit kwargs" where
  "example_kwargs = default_kwargs\<lparr>num_samples := Some 2\<rparr>"

text \<open>
  Collaborators that return fixed moments and a fixed sample, with the mixing transform
  of the spec in the diagonal mode.
\<close>

definition fixed_conditional :: "'a tensor \<Rightarrow> 'a tensor \<Rightarrow> ('a, unit) cond_impl" where
  "fixed_conditional g_mu g_var Xnew feat kern f wh qs = Inr (g_mu, g_var)"

definition fixed_env ::
  "'a::{monoid_add,times} tensor \<Rightarrow> 'a tensor \<Rightarrow> 'a tensor \<Rightarrow> ('a, unit) env" where
  "fixed_env g_mu g_var g_sample =
     \<lparr>dispatch = (\<lambda>s.
         if s = inner_signature then Inr (fixed_conditional g_mu g_var) else Inl DispatchError),
      sample_mvn = (\<lambda>mu var tag ns.
         if tag = ''diag'' then Inr g_sample else Inl (OtherError ''not modelled'')),
      mix_latent_gp = (\<lambda>W' mu var fc foc.
         if \<not> fc \<and> \<not> foc then mix_latent_gp_diag W' mu var
         else Inl (OtherError ''not modelled''))\<rparr>"

text \<open>
  The scenario of the identity mixing in floating point, with three points, two latents
  and two outputs: all entries finite.
\<close>

definition identity_kern :: "(ieee, unit) kernel" where
  "identity_kern = \<lparr>cls = SeparateMixedMok, content = (), W = identity_matrix 2\<rparr>"

definition finite_g_mu :: "ieee tensor" where
  "finite_g_mu =
     \<lparr>shape = [3, 2],
      entries = [Finite 1, Finite 2, Finite 3, Finite 4, Finite 5, Finite 6]\<rparr>"

definition finite_g_var :: "ieee tensor" where
  "finite_g_var =
     \<lparr>shape = [3, 2],
      entries = [Finite 4, Finite 1, Finite 0, Finite 4, Finite 1, Finite 1]\<rparr>"

definition finite_g_sample :: "ieee tensor" where
  "finite_g_sample =
     \<lparr>shape = [3, 2],
      entries = [Finite 3, Finite 3, Finite 3, Finite 6, Finite 6, Finite 7]\<rparr>"

text \<open>
  The same mixing with one point whose first latent has an infinite variance, and so
  an infinite sample.
\<close>

definition infinite_g_mu :: "ieee tensor" where
  "infinite_g_mu = \<lparr>shape = [1, 2], entries = [Finite 1, Finite 2]\<rparr>"

definition infinite_g_var :: "ieee tensor" where
  "infinite_g_var = \<lparr>shape = [1, 2], entries = [PosInf, Finite 4]\<rparr>"

definition infinite_g_sample :: "ieee tensor" where
  "infinite_g_sample = \<lparr>shape = [1, 2], entries = [PosInf, Finite 3]\<rparr>"

text \<open>
  A class hierarchy in which \<^verbatim>\<open>MixedKernelSeparateMof\<close> is a proper subclass of
  \<^verbatim>\<open>SeparateIndependentMof\<close>, and nothing else inherits.
\<close>

definition example_issubclass :: "pytype \<Rightarrow> pytype \<Rightarrow> bool" where
  "example_issubclass t c =
     (t = OtherClass ''MixedKernelSeparateMof'' \<and> c = SeparateIndependentMof)"

text \<open>
  What the collaborators of the example return: the sample with every draw of the noise
  equal to one, the mixed moments, and the contraction of the sample with \<open>W\<close>.
\<close>

definition example_g_sample :: "real tensor" where
  "example_g_sample = \<lparr>shape = [2, 2, 2], entries = [3, 3, 3, 6, 3, 3, 3, 6]\<rparr>"

definition example_f_mu :: "real tensor" where
  "example_f_mu = \<lparr>shape = [2, 3], entries = [1, 2, 5, 3, 4, 11]\<rparr>"

definition example_f_var :: "real tensor" where
  "example_f_var = \<lparr>shape = [2, 3], entries = [4, 1, 8, 0, 4, 16]\<rparr>"

definition example_f_sample :: "real tensor" where
  "example_f_sample = \<lparr>shape = [2, 2, 3], entries = [3, 3, 9, 3, 6, 15, 3, 3, 9, 3, 6, 15]\<rparr>"



text \<open>
  A registry that holds the function itself (2) under its own operation and a generic
  implementation (0) of \<^verbatim>\<open>conditional\<close> under the wildcard-only pattern.
\<close>

definition example_registry :: "nat registry" where
  "example_registry =
     register Conditional wildcard_signature 0
       (register SampleConditional registered_signature 2 [])"

section \<open>Running the function\<close>

lemma and_then_call_Inl [simp]: "and_then (call ev (Inl e)) k = (Inl e, [ev])"
  by (simp add: and_then_def call_def)

lemma and_then_call_Inr [simp]:
  "and_then (call ev (Inr x)) k = (fst (k x), ev # snd (k x))"
  by (simp add: and_then_def call_def)

lemma raise_parts [simp]: "fst (raise e) = Inl e" "snd (raise e) = []"
  by (simp_all add: raise_def)

lemma return_parts [simp]: "fst (return x) = Inr x" "snd (return x) = []"
  by (simp_all add: return_def)

section \<open>Indexing and contraction\<close>

lemma flat_index_append:
  "length i = length ds \<Longrightarrow>
   flat_index (ds @ es) (i @ j) = flat_index ds i * prod_list es + flat_index es j"
  by (induction i ds rule: list_induct2) (simp_all add: algebra_simps)

lemma valid_index_length: "valid_index ds i \<Longrightarrow> length i = length ds"
  by (induction ds i rule: valid_index.induct) simp_all

lemma flat_index_less: "valid_index ds i \<Longrightarrow> flat_index ds i < prod_list ds"
proof (induction ds i rule: valid_index.induct)
  case (2 d ds i idx)
  then have "i < d" and less: "flat_index ds idx < prod_list ds" by simp_all
  then have "i * prod_list ds + flat_index ds idx < Suc i * prod_list ds" by simp
  also have "\<dots> \<le> d * prod_list ds" using \<open>i < d\<close> by (intro mult_le_mono1) simp
  finally show ?case by simp
qed simp_all

lemma length_rows_of: "length (rows_of t) = prod_list (butlast (shape t))"
  by (simp add: rows_of_def Let_def)

lemma nth_rows_of:
  "r < prod_list (butlast (shape t)) \<Longrightarrow>
   rows_of t ! r = take (last (shape t)) (drop (r * last (shape t)) (entries t))"
  by (simp add: rows_of_def Let_def)

lemma row_bound:
  assumes "r < n"
  shows "r * L + L \<le> n * (L::nat)"
proof -
  have "r * L + L = Suc r * L" by simp
  also have "\<dots> \<le> n * L" using assms by (intro mult_le_mono1) simp
  finally show ?thesis .
qed

lemma row_of_tensor:
  assumes "wf_tensor t" "shape t = ds @ [L]" "r < prod_list ds"
  shows "length (rows_of t ! r) = L"
    and "l < L \<Longrightarrow> rows_of t ! r ! l = entries t ! (r * L + l)"
proof -
  have len: "length (entries t) = prod_list ds * L"
    using assms(1,2) by (simp add: wf_tensor_def)
  have row: "rows_of t ! r = take L (drop (r * L) (entries t))"
    using assms(2,3) by (simp add: nth_rows_of)
  have "r * L + L \<le> length (entries t)"
    using row_bound [OF assms(3)] len by simp
  then show "length (rows_of t ! r) = L" using row by simp
  show "rows_of t ! r ! l = entries t ! (r * L + l)" if "l < L"
    using that row \<open>r * L + L \<le> length (entries t)\<close> by simp
qed

lemma dot_sum:
  "length xs = n \<Longrightarrow> length ys = n \<Longrightarrow> dot xs ys = (\<Sum>l<n. xs ! l * ys ! l)"
  by (simp add: dot_def sum_list_sum_nth atLeast0LessThan)

lemma concat_nth_uniform:
  "\<forall>xs\<in>set xss. length xs = P \<Longrightarrow> r < length xss \<Longrightarrow> p < P \<Longrightarrow>
   concat xss ! (r * P + p) = xss ! r ! p"
proof (induction xss arbitrary: r)
  case Nil
  then show ?case by simp
next
  case (Cons xs xss)
  show ?case
  proof (cases r)
    case 0
    with Cons.prems show ?thesis by (simp add: nth_append)
  next
    case (Suc r')
    with Cons.prems have "concat xss ! (r' * P + p) = xss ! r' ! p"
      by (intro Cons.IH) simp_all
    with Suc Cons.prems show ?thesis by (simp add: nth_append)
  qed
qed

lemma tensordot_last_shape:
  "tensordot_last a b = Inr c \<Longrightarrow> shape c = butlast (shape a) @ butlast (shape b)"
  by (auto simp: tensordot_last_def split: if_splits)

lemma tensordot_last_defined:
  "shape a = ds @ [L] \<Longrightarrow> shape b = es @ [L] \<Longrightarrow> \<exists>c. tensordot_last a b = Inr c"
  by (simp add: tensordot_last_def)

lemma tensordot_last_entry:
  assumes c: "tensordot_last a b = Inr c"
    and wf: "wf_tensor a" "wf_tensor b"
    and sh: "shape a = ds @ [L]" "shape b = es @ [L]"
    and idx: "valid_index ds i" "valid_index es j"
  shows "entry_at c (i @ j) = (\<Sum>l<L. entry_at a (i @ [l]) * entry_at b (j @ [l]))"
proof -
  let ?r = "flat_index ds i" and ?q = "flat_index es j"
  have r: "?r < prod_list ds" and q: "?q < prod_list es"
    using idx by (simp_all add: flat_index_less)
  have li: "length i = length ds" and lj: "length j = length es"
    using idx by (simp_all add: valid_index_length)
  have shape_c: "shape c = ds @ es"
    using tensordot_last_shape [OF c] sh by simp
  have entries_c: "entries c = concat (map (\<lambda>r. map (dot r) (rows_of b)) (rows_of a))"
    using c sh by (auto simp: tensordot_last_def split: if_splits)
  have "entry_at c (i @ j) = entries c ! (?r * prod_list es + ?q)"
    by (simp add: entry_at_def shape_c flat_index_append li)
  also have "\<dots> = map (\<lambda>r. map (dot r) (rows_of b)) (rows_of a) ! ?r ! ?q"
    unfolding entries_c
    using r q sh by (intro concat_nth_uniform) (simp_all add: length_rows_of)
  also have "\<dots> = dot (rows_of a ! ?r) (rows_of b ! ?q)"
    using r q sh by (simp add: length_rows_of)
  also have "\<dots> = (\<Sum>l<L. rows_of a ! ?r ! l * rows_of b ! ?q ! l)"
    using row_of_tensor(1) [OF wf(1) sh(1) r] row_of_tensor(1) [OF wf(2) sh(2) q]
    by (intro dot_sum)
  also have "\<dots> = (\<Sum>l<L. entries a ! (?r * L + l) * entries b ! (?q * L + l))"
    using row_of_tensor(2) [OF wf(1) sh(1) r] row_of_tensor(2) [OF wf(2) sh(2) q]
    by (intro sum.cong) simp_all
  also have "\<dots> = (\<Sum>l<L. entry_at a (i @ [l]) * entry_at b (j @ [l]))"
    by (simp add: entry_at_def sh flat_index_append li lj)
  finally show ?thesis .
qed

section \<open>Contraction with the identity matrix\<close>

lemma take_drop_concat_uniform:
  "\<forall>xs\<in>set xss. length xs = L \<Longrightarrow> i < length xss \<Longrightarrow>
   take L (drop (i * L) (concat xss)) = xss ! i"
proof (induction xss arbitrary: i)
  case Nil
  then show ?case by simp
next
  case (Cons xs xss)
  show ?case
  proof (cases i)
    case 0
    with Cons.prems show ?thesis by simp
  next
    case (Suc i')
    with Cons.prems have "take L (drop (i' * L) (concat xss)) = xss ! i'"
      by (intro Cons.IH) simp_all
    with Suc Cons.prems show ?thesis by simp
  qed
qed

lemma concat_chunks: "concat (map (\<lambda>i. take L (drop (i * L) xs)) [0..<n]) = take (n * L) xs"
proof (induction n)
  case 0
  show ?case by simp
next
  case (Suc n)
  have "take (n * L) xs @ take L (drop (n * L) xs) = take (n * L + L) xs"
    by (simp add: take_add)
  with Suc show ?case by (simp add: add.commute)
qed

lemma concat_rows_of:
  assumes "wf_tensor t" "shape t = ds @ [L]"
  shows "concat (rows_of t) = entries t"
  using assms by (simp add: rows_of_def wf_tensor_def concat_chunks)

lemma rows_of_identity:
  "rows_of (identity_matrix L) = map (\<lambda>p. map (\<lambda>l. if p = l then 1 else 0) [0..<L]) [0..<L]"
  by (rule nth_equalityI)
    (simp_all add: rows_of_def identity_matrix_def take_drop_concat_uniform)

lemma dot_unit:
  fixes r :: "real list"
  assumes "length r = L" "p < L"
  shows "dot r (map (\<lambda>l. if p = l then 1 else 0) [0..<L]) = r ! p"
proof -
  have "dot r (map (\<lambda>l. if p = l then 1 else 0) [0..<L])
      = (\<Sum>l<L. r ! l * (map (\<lambda>l. if p = l then 1 else 0) [0..<L]) ! l)"
    using assms by (intro dot_sum) simp_all
  also have "\<dots> = (\<Sum>l<L. if l = p then r ! l else 0)"
    by (intro sum.cong) auto
  also have "\<dots> = r ! p"
    using assms by (simp add: sum.delta)
  finally show ?thesis .
qed

lemma contract_row_identity:
  fixes r :: "real list"
  assumes "length r = L"
  shows "map (dot r) (rows_of (identity_matrix L)) = r"
  using assms by (intro nth_equalityI) (simp_all add: rows_of_identity dot_unit)

lemma rows_of_lengths:
  assumes "wf_tensor t" "shape t = ds @ [L]" "r \<in> set (rows_of t)"
  shows "length r = L"
proof -
  from assms(3) obtain k where "k < length (rows_of t)" "r = rows_of t ! k"
    by (auto simp: in_set_conv_nth)
  then show ?thesis
    using row_of_tensor(1) [OF assms(1,2), of k] assms(2) by (simp add: length_rows_of)
qed

lemma tensordot_last_identity:
  fixes a :: "real tensor"
  assumes "wf_tensor a" "shape a = ds @ [L]"
  shows "tensordot_last a (identity_matrix L) = Inr a"
proof -
  have "map (\<lambda>r. map (dot r) (rows_of (identity_matrix L))) (rows_of a) = rows_of a"
    using rows_of_lengths [OF assms] by (intro map_idI) (simp add: contract_row_identity)
  then have "concat (map (\<lambda>r. map (dot r) (rows_of (identity_matrix L))) (rows_of a)) = entries a"
    using concat_rows_of [OF assms] by simp
  moreover have "shape (identity_matrix L :: real tensor) = [L, L]"
    by (simp add: identity_matrix_def)
  ultimately show ?thesis
    using assms(2) by (simp add: tensordot_last_def)
qed

lemma square_entries_identity:
  "square_entries (identity_matrix L) = (identity_matrix L :: real tensor)"
  by (simp add: square_entries_def identity_matrix_def map_concat o_def if_distrib cong: if_cong)

lemma mix_latent_gp_diag_identity:
  fixes mu var :: "real tensor"
  assumes "wf_tensor mu" "wf_tensor var" "shape mu = ds @ [L]" "shape var = ds @ [L]"
  shows "mix_latent_gp_diag (identity_matrix L) mu var = Inr (mu, var)"
  using assms by (simp add: mix_latent_gp_diag_def square_entries_identity tensordot_last_identity)

section \<open>Finite floating-point tensors\<close>

lemma sum_list_Finite: "sum_list (map Finite xs) = Finite (sum_list xs)"
  by (induction xs) (simp_all add: zero_ieee_def plus_ieee_def)

lemma dot_Finite: "dot (map Finite xs) (map Finite ys) = Finite (dot xs ys)"
proof -
  have "map2 (*) (map Finite xs) (map Finite ys) = map Finite (map2 (*) xs ys)"
    by (simp add: zip_map_map times_ieee_def split_def)
  then have "dot (map Finite xs) (map Finite ys) = sum_list (map Finite (map2 (*) xs ys))"
    by (simp only: dot_def)
  then show ?thesis by (simp only: sum_list_Finite dot_def)
qed

lemma shape_of_reals [simp]: "shape (of_reals t) = shape t"
  by (simp add: of_reals_def)

lemma entries_of_reals [simp]: "entries (of_reals t) = map Finite (entries t)"
  by (simp add: of_reals_def)

lemma wf_of_reals [simp]: "wf_tensor (of_reals t) = wf_tensor t"
  by (simp add: wf_tensor_def)

lemma rows_of_of_reals: "rows_of (of_reals t) = map (map Finite) (rows_of t)"
  by (simp add: rows_of_def Let_def take_map drop_map)

lemma tensordot_last_of_reals:
  "tensordot_last (of_reals a) (of_reals b) =
     (case tensordot_last a b of Inl e \<Rightarrow> Inl e | Inr c \<Rightarrow> Inr (of_reals c))"
proof -
  have "concat (map (\<lambda>r. map (dot r) (rows_of (of_reals b))) (rows_of (of_reals a)))
      = map Finite (concat (map (\<lambda>r. map (dot r) (rows_of b)) (rows_of a)))"
    by (simp add: rows_of_of_reals map_concat o_def dot_Finite)
  then show ?thesis
    by (simp add: tensordot_last_def of_reals_def)
qed

lemma identity_matrix_of_reals: "identity_matrix L = of_reals (identity_matrix L)"
  by (simp add: identity_matrix_def of_reals_def map_concat o_def zero_ieee_def one_ieee_def
      if_distrib cong: if_cong)

lemma square_entries_of_reals: "square_entries (of_reals t) = of_reals (square_entries t)"
  by (simp add: square_entries_def of_reals_def o_def times_ieee_def)

lemma of_reals_to_reals:
  assumes "all_finite t"
  shows "of_reals (to_reals t) = t"
proof -
  have "map (Finite \<circ> real_of) xs = xs" if "list_all is_finite xs" for xs
    using that
  proof (induction xs)
    case Nil
    show ?case by simp
  next
    case (Cons x xs)
    then show ?case by (cases x) simp_all
  qed
  with assms show ?thesis
    by (simp add: of_reals_def to_reals_def all_finite_def)
qed

lemma to_reals_parts [simp]:
  "shape (to_reals t) = shape t" "wf_tensor (to_reals t) = wf_tensor t"
  by (simp_all add: to_reals_def wf_tensor_def)

lemma tensordot_last_identity_finite:
  fixes a :: "ieee tensor"
  assumes "wf_tensor a" "shape a = ds @ [L]" "all_finite a"
  shows "tensordot_last a (identity_matrix L) = Inr a"
proof -
  have "tensordot_last (to_reals a) (identity_matrix L) = Inr (to_reals a)"
    using assms(1,2) by (intro tensordot_last_identity) simp_all
  then have "tensordot_last (of_reals (to_reals a)) (of_reals (identity_matrix L))
      = Inr (of_reals (to_reals a))"
    by (simp add: tensordot_last_of_reals)
  then show ?thesis
    using of_reals_to_reals [OF assms(3)] identity_matrix_of_reals [of L] by simp
qed

lemma mix_latent_gp_diag_identity_finite:
  fixes mu var :: "ieee tensor"
  assumes "wf_tensor mu" "wf_tensor var" "shape mu = ds @ [L]" "shape var = ds @ [L]"
    and "all_finite mu" "all_finite var"
  shows "mix_latent_gp_diag (identity_matrix L) mu var = Inr (mu, var)"
proof -
  have "square_entries (identity_matrix L) = (identity_matrix L :: ieee tensor)"
    using square_entries_identity [of L]
    by (simp add: identity_matrix_of_reals [of L] square_entries_of_reals)
  then show ?thesis
    using assms by (simp add: mix_latent_gp_diag_def tensordot_last_identity_finite)
qed

section \<open>The mixing transform, entry by entry\<close>

lemma wf_square_entries: "wf_tensor (square_entries t) = wf_tensor t"
  by (simp add: wf_tensor_def square_entries_def)

lemma shape_square_entries: "shape (square_entries t) = shape t"
  by (simp add: square_entries_def)

lemma entry_at_square_entries:
  fixes t :: "real tensor"
  assumes "wf_tensor t" "valid_index (shape t) idx"
  shows "entry_at (square_entries t) idx = (entry_at t idx)\<^sup>2"
  using assms flat_index_less [OF assms(2)]
  by (simp add: entry_at_def square_entries_def wf_tensor_def power2_eq_square)

lemma mix_latent_gp_diag_entries:
  fixes W' mu var :: "real tensor"
  assumes mixed: "mix_latent_gp_diag W' mu var = Inr (f_mu, f_var)"
    and wf: "wf_tensor mu" "wf_tensor var" "wf_tensor W'"
    and sh: "shape mu = ds @ [L]" "shape var = ds @ [L]" "shape W' = [P, L]"
    and idx: "valid_index ds i" "p < P"
  shows "entry_at f_mu (i @ [p]) = (\<Sum>l<L. entry_at mu (i @ [l]) * entry_at W' [p, l])"
    and "entry_at f_var (i @ [p]) = (\<Sum>l<L. (entry_at W' [p, l])\<^sup>2 * entry_at var (i @ [l]))"
proof -
  from mixed have m: "tensordot_last mu W' = Inr f_mu"
    and v: "tensordot_last var (square_entries W') = Inr f_var"
    by (auto simp: mix_latent_gp_diag_def split: sum.splits)
  have shW: "shape W' = [P] @ [L]" using sh(3) by simp
  have p: "valid_index [P] [p]" using idx(2) by simp
  show "entry_at f_mu (i @ [p]) = (\<Sum>l<L. entry_at mu (i @ [l]) * entry_at W' [p, l])"
    using tensordot_last_entry [OF m wf(1,3) sh(1) shW idx(1) p] by simp
  have wfsq: "wf_tensor (square_entries W')"
    and shsq: "shape (square_entries W') = [P] @ [L]"
    using wf(3) sh(3) by (simp_all add: wf_square_entries shape_square_entries)
  have "entry_at f_var (i @ [p])
      = (\<Sum>l<L. entry_at var (i @ [l]) * entry_at (square_entries W') [p, l])"
    using tensordot_last_entry [OF v wf(2) wfsq sh(2) shsq idx(1) p] by simp
  also have "\<dots> = (\<Sum>l<L. (entry_at W' [p, l])\<^sup>2 * entry_at var (i @ [l]))"
  proof (intro sum.cong refl)
    fix l assume "l \<in> {..<L}"
    then have "valid_index (shape W') [p, l]" using sh(3) idx(2) by simp
    from entry_at_square_entries [OF wf(3) this]
    show "entry_at var (i @ [l]) * entry_at (square_entries W') [p, l]
        = (entry_at W' [p, l])\<^sup>2 * entry_at var (i @ [l])"
      by (simp add: mult.commute)
  qed
  finally show "entry_at f_var (i @ [p]) = (\<Sum>l<L. (entry_at W' [p, l])\<^sup>2 * entry_at var (i @ [l]))" .
qed

section \<open>The shape of a sample\<close>

lemma sample_shape_moments:
  "sample_shape (lead @ [N, L]) ns = lead @ sample_axis ns @ [N, L]"
  by (simp add: sample_shape_def)

lemma sample_mvn_diag_shape:
  "sample_mvn_diag eps mu var ns = Inr s \<Longrightarrow> shape s = sample_shape (shape mu) ns"
  by (auto simp: sample_mvn_diag_def sample_shape_def Let_def split: if_splits)

section \<open>The runs of the function, branch by branch\<close>

lemma run_rejected:
  "full_cov kw \<or> full_output_cov kw \<Longrightarrow>
   sample_conditional_impl env Xnew feat kern f kw =
     (Inl (NotImplementedError
        (if full_cov kw then ''full_cov not yet implemented''
         else ''full_output_cov not yet implemented'')),
      [LogDebug debug_message])"
  by (auto simp: sample_conditional_impl_def)



lemma run_sample_fails:
  assumes "\<not> full_cov kw" "\<not> full_output_cov kw" "dispatch env inner_signature = Inr impl"
    "impl Xnew feat kern f (white kw) (q_sqrt kw) = Inr (g_mu, g_var)"
    "sample_mvn env g_mu g_var ''diag'' (num_samples kw) = Inl e"
  shows "sample_conditional_impl env Xnew feat kern f kw =
     (Inl e, [LogDebug debug_message, CallDispatch inner_signature,
        CallConditional Xnew feat kern f (white kw) (q_sqrt kw),
        CallSampleMvn g_mu g_var ''diag'' (num_samples kw)])"
  using assms by (simp add: sample_conditional_impl_def)

lemma run_mixing_fails:
  assumes "\<not> full_cov kw" "\<not> full_output_cov kw" "dispatch env inner_signature = Inr impl"
    "impl Xnew feat kern f (white kw) (q_sqrt kw) = Inr (g_mu, g_var)"
    "sample_mvn env g_mu g_var ''diag'' (num_samples kw) = Inr g_sample"
    "mix_latent_gp env (W kern) g_mu g_var False False = Inl e"
  shows "sample_conditional_impl env Xnew feat kern f kw =
     (Inl e, [LogDebug debug_message, CallDispatch inner_signature,
        CallConditional Xnew feat kern f (white kw) (q_sqrt kw),
        CallSampleMvn g_mu g_var ''diag'' (num_samples kw),
        CallMixLatentGp (W kern) g_mu g_var False False])"
  using assms by (simp add: sample_conditional_impl_def)

lemma run_mixed:
  assumes "\<not> full_cov kw" "\<not> full_output_cov kw" "dispatch env inner_signature = Inr impl"
    "impl Xnew feat kern f (white kw) (q_sqrt kw) = Inr (g_mu, g_var)"
    "sample_mvn env g_mu g_var ''diag'' (num_samples kw) = Inr g_sample"
    "mix_latent_gp env (W kern) g_mu g_var False False = Inr (f_mu, f_var)"
  shows "sample_conditional_impl env Xnew feat kern f kw =
     (case tensordot_last g_sample (W kern) of
        Inl e \<Rightarrow> Inl e
      | Inr f_sample \<Rightarrow> Inr (f_sample, f_mu, f_var),
      [LogDebug debug_message, CallDispatch inner_signature,
        CallConditional Xnew feat kern f (white kw) (q_sqrt kw),
        CallSampleMvn g_mu g_var ''diag'' (num_samples kw),
        CallMixLatentGp (W kern) g_mu g_var False False,
        CallTensordot g_sample (W kern)])"
  using assms by (cases "tensordot_last g_sample (W kern)") (simp_all add: sample_conditional_impl_def)

lemma calls_after_sample:
  assumes "\<not> full_cov kw" "\<not> full_output_cov kw"
    and "dispatch env inner_signature = Inr impl"
    and "impl Xnew feat kern f (white kw) (q_sqrt kw) = Inr (g_mu, g_var)"
  shows "\<exists>rest. calls (sample_conditional_impl env Xnew feat kern f kw) =
           [LogDebug debug_message, CallDispatch inner_signature,
            CallConditional Xnew feat kern f (white kw) (q_sqrt kw),
            CallSampleMvn g_mu g_var ''diag'' (num_samples kw)] @ rest
         \<and> list_all (\<lambda>e. \<not> is_sample_mvn e \<and> \<not> is_dispatch e) rest"
proof (cases "sample_mvn env g_mu g_var ''diag'' (num_samples kw)")
  case (Inl e)
  show ?thesis
    using run_sample_fails [OF assms Inl] by (simp add: calls_def)
next
  case (Inr g_sample)
  show ?thesis
  proof (cases "mix_latent_gp env (W kern) g_mu g_var False False")
    case (Inl e)
    show ?thesis
      using run_mixing_fails [OF assms Inr Inl] by (simp add: calls_def)
  next
    case mixed: (Inr moments)
    obtain f_mu f_var where "moments = (f_mu, f_var)" by (cases moments)
    with mixed show ?thesis
      using run_mixed [OF assms Inr, of f_mu f_var] by (simp add: calls_def)
  qed
qed

lemma returned_sample:
  assumes "\<not> full_cov kw" "\<not> full_output_cov kw"
    and "dispatch env inner_signature = Inr impl"
    and "impl Xnew feat kern f (white kw) (q_sqrt kw) = Inr (g_mu, g_var)"
    and drawn: "sample_mvn env g_mu g_var ''diag'' (num_samples kw) = Inr g_sample"
    and returned: "outcome (sample_conditional_impl env Xnew feat kern f kw) = Inr (f_sample, f_mu, f_var)"
  shows "tensordot_last g_sample (W kern) = Inr f_sample"
proof (cases "mix_latent_gp env (W kern) g_mu g_var False False")
  case (Inl e)
  then show ?thesis
    using run_mixing_fails [OF assms(1-5) Inl] returned by (simp add: outcome_def)
next
  case mixed: (Inr moments)
  obtain m v where "moments = (m, v)" by (cases moments)
  with mixed show ?thesis
    using run_mixed [OF assms(1-5), of m v] returned
    by (simp add: outcome_def split: sum.splits)
qed


section \<open>The most specific pattern\<close>

lemma lex_greater_asym: "lex_greater xs ys \<Longrightarrow> \<not> lex_greater ys xs"
  by (induction xs ys rule: lex_greater.induct) auto

lemma more_specific_asym: "more_specific s s' \<Longrightarrow> \<not> more_specific s' s"
  unfolding more_specific_def by (rule lex_greater_asym)

lemma best_in_set: "best cs = Some d \<Longrightarrow> d \<in> set cs"
  by (induction cs arbitrary: d) (auto split: option.splits if_splits)

lemma best_unique_maximum:
  assumes "c \<in> set cs"
    and "\<forall>d\<in>set cs. d \<noteq> c \<longrightarrow> more_specific (fst c) (fst d)"
  shows "best cs = Some c"
  using assms
proof (induction cs)
  case Nil
  then show ?case by simp
next
  case (Cons x xs)
  show ?case
  proof (cases "x = c")
    case True
    show ?thesis
    proof (cases "best xs")
      case None
      with True show ?thesis by simp
    next
      case (Some d)
      then have "d \<in> set xs" by (rule best_in_set)
      show ?thesis
      proof (cases "d = c")
        case True
        with Some \<open>x = c\<close> show ?thesis by simp
      next
        case False
        with Cons.prems(2) \<open>d \<in> set xs\<close> have "more_specific (fst c) (fst d)" by simp
        then have "\<not> more_specific (fst d) (fst c)" by (rule more_specific_asym)
        with Some \<open>x = c\<close> show ?thesis by simp
      qed
    qed
  next
    case False
    with Cons.prems have "c \<in> set xs" by simp
    moreover have "\<forall>d\<in>set xs. d \<noteq> c \<longrightarrow> more_specific (fst c) (fst d)"
      using Cons.prems(2) by simp
    ultimately have "best xs = Some c" by (rule Cons.IH)
    moreover have "more_specific (fst c) (fst x)"
      using Cons.prems(2) False by simp
    ultimately show ?thesis by simp
  qed
qed

lemma inner_signature_matches:
  assumes "slot_matches issubclass SeparateIndependentMof t2"
    and "slot_matches issubclass SeparateIndependentMok t3"
  shows "matches issubclass inner_signature (t1, t2, t3, t4)"
  using assms by (simp add: inner_signature_def slot_matches_def)

lemma inner_more_specific_than_wildcard: "more_specific inner_signature wildcard_signature"
  by (simp add: more_specific_def inner_signature_def wildcard_signature_def slot_rank_def)

lemma inner_not_wildcard: "inner_signature \<noteq> wildcard_signature"
  by (simp add: inner_signature_def wildcard_signature_def)

lemma dispatch_unique_maximum:
  assumes registered: "(Conditional, pat, impl) \<in> set reg"
    and matching: "matches issubclass pat types"
    and others: "\<forall>e\<in>set reg. fst e = Conditional \<and> matches issubclass (fst (snd e)) types
        \<and> snd e \<noteq> (pat, impl) \<longrightarrow> more_specific pat (fst (snd e))"
  shows "dispatch_registry issubclass reg Conditional types = Inr impl"
proof -
  let ?cs = "candidates issubclass reg Conditional types"
  have "(pat, impl) \<in> set ?cs"
    using registered matching by (force simp: candidates_def)
  moreover have "\<forall>d\<in>set ?cs. d \<noteq> (pat, impl) \<longrightarrow> more_specific (fst (pat, impl)) (fst d)"
    using others by (auto simp: candidates_def)
  ultimately have "best ?cs = Some (pat, impl)"
    by (rule best_unique_maximum)
  then show ?thesis by (simp add: dispatch_registry_def)
qed

section \<open>The example call, evaluated\<close>

lemma example_flags:
  "\<not> full_cov example_kwargs" "\<not> full_output_cov example_kwargs"
  "white example_kwargs = False" "q_sqrt example_kwargs = None"
  "num_samples example_kwargs = Some 2"
  by (simp_all add: example_kwargs_def default_kwargs_def)

lemma example_dispatch: "dispatch example_env inner_signature = Inr example_conditional"
  by (simp add: example_env_def)

lemma example_moments:
  "example_conditional Xnew feat kern f wh qs = Inr (example_g_mu, example_g_var)"
  by (simp add: example_conditional_def)

lemma upt_numeral_unfold: "[i..<numeral n] = (if i < numeral n then i # [Suc i..<numeral n] else [])"
  by (rule upt_rec)

lemma example_sample:
  "sample_mvn example_env example_g_mu example_g_var ''diag'' (Some 2) = Inr example_g_sample"
  by (simp add: example_env_def sample_mvn_diag_def example_g_mu_def example_g_var_def
      example_g_sample_def wf_tensor_def sample_axis_def Let_def upt_numeral_unfold)

lemma example_mixing:
  "mix_latent_gp example_env example_W example_g_mu example_g_var False False
     = Inr (example_f_mu, example_f_var)"
  by (simp add: example_env_def mix_latent_gp_diag_def tensordot_last_def rows_of_def dot_def
      square_entries_def example_W_def example_g_mu_def example_g_var_def example_f_mu_def
      example_f_var_def Let_def upt_numeral_unfold)

lemma example_contraction: "tensordot_last example_g_sample example_W = Inr example_f_sample"
  by (simp add: tensordot_last_def rows_of_def dot_def example_W_def example_g_sample_def
      example_f_sample_def Let_def upt_numeral_unfold)

lemma example_wf:
  "wf_tensor example_g_mu" "wf_tensor example_g_var" "wf_tensor example_W"
  "wf_tensor example_g_sample"
  by (simp_all add: wf_tensor_def example_g_mu_def example_g_var_def example_W_def
      example_g_sample_def)

lemma example_shapes:
  "shape example_g_mu = [2] @ [2]" "shape example_g_var = [2] @ [2]" "shape example_W = [3, 2]"
  "shape example_g_sample = [2, 2] @ [2]"
  by (simp_all add: example_g_mu_def example_g_var_def example_W_def example_g_sample_def)

lemma example_contract:
  "mix_latent_gp example_env W' mu var False False = mix_latent_gp_diag W' mu var"
  by (simp add: example_env_def)

lemma example_W_kern: "W example_kern = example_W"
  by (simp add: example_kern_def)

lemmas ieee_arith = plus_ieee_def times_ieee_def zero_ieee_def one_ieee_def scale_inf_def

lemma default_flags:
  "\<not> full_cov (default_kwargs :: unit kwargs)" "\<not> full_output_cov (default_kwargs :: unit kwargs)"
  "white (default_kwargs :: unit kwargs) = False" "q_sqrt (default_kwargs :: unit kwargs) = None"
  "num_samples (default_kwargs :: unit kwargs) = None"
  by (simp_all add: default_kwargs_def)

lemma fixed_dispatch:
  "dispatch (fixed_env g_mu g_var g_sample) inner_signature = Inr (fixed_conditional g_mu g_var)"
  by (simp add: fixed_env_def)

lemma fixed_moments: "fixed_conditional g_mu g_var Xnew feat kern f wh qs = Inr (g_mu, g_var)"
  by (simp add: fixed_conditional_def)

lemma fixed_sample:
  "sample_mvn (fixed_env g_mu g_var g_sample) mu var ''diag'' ns = Inr g_sample"
  by (simp add: fixed_env_def)

lemma fixed_contract:
  "mix_latent_gp (fixed_env g_mu g_var g_sample) W' mu var False False
     = mix_latent_gp_diag W' mu var"
  by (simp add: fixed_env_def)

lemma identity_matrix_two:
  "(identity_matrix 2 :: ieee tensor)
     = \<lparr>shape = [2, 2], entries = [Finite 1, Finite 0, Finite 0, Finite 1]\<rparr>"
  by (simp add: identity_matrix_def upt_numeral_unfold zero_ieee_def one_ieee_def)

lemma identity_W: "W identity_kern = identity_matrix 2"
  by (simp add: identity_kern_def)

lemma infinite_contraction:
  "tensordot_last infinite_g_sample (identity_matrix 2)
     = Inr \<lparr>shape = [1, 2], entries = [PosInf, NaN]\<rparr>"
  by (simp add: identity_matrix_two tensordot_last_def rows_of_def dot_def infinite_g_sample_def
      Let_def upt_numeral_unfold ieee_arith)

lemma infinite_mixing:
  "mix_latent_gp_diag (identity_matrix 2) infinite_g_mu infinite_g_var
     = Inr (infinite_g_mu, \<lparr>shape = [1, 2], entries = [PosInf, NaN]\<rparr>)"
  by (simp add: identity_matrix_two mix_latent_gp_diag_def square_entries_def tensordot_last_def
      rows_of_def dot_def infinite_g_mu_def infinite_g_var_def Let_def upt_numeral_unfold ieee_arith)

section \<open>Rejected covariance modes\<close>

text \<open>
  C1. A call with \<^verbatim>\<open>full_cov\<close> or \<^verbatim>\<open>full_output_cov\<close> set raises
  \<^verbatim>\<open>NotImplementedError\<close>, and the only call made before it is the debug log entry: no
  dispatch, no conditional, no sample, no mixing and no contraction.
\<close>

theorem unsupported_mode_rejected:
  assumes "full_cov kw \<or> full_output_cov kw"
  shows "(\<exists>msg. outcome (sample_conditional_impl env Xnew feat kern f kw) = Inl (NotImplementedError msg))
       \<and> calls (sample_conditional_impl env Xnew feat kern f kw) = [LogDebug debug_message]"
  using run_rejected [OF assms, of env Xnew feat kern f] by (simp add: outcome_def calls_def)

theorem unsupported_mode_rejected_witness:
  "full_output_cov (default_kwargs\<lparr>full_output_cov := True\<rparr> :: unit kwargs)
   \<and> (\<exists>msg. outcome (sample_conditional_impl example_env example_Xnew example_feat example_kern
          example_f (default_kwargs\<lparr>full_output_cov := True\<rparr>)) = Inl (NotImplementedError msg))
   \<and> calls (sample_conditional_impl example_env example_Xnew example_feat example_kern
          example_f (default_kwargs\<lparr>full_output_cov := True\<rparr>)) = [LogDebug debug_message]"
proof -
  have h: "full_cov (default_kwargs\<lparr>full_output_cov := True\<rparr> :: unit kwargs)
         \<or> full_output_cov (default_kwargs\<lparr>full_output_cov := True\<rparr> :: unit kwargs)"
    by simp
  show ?thesis
    using unsupported_mode_rejected [OF h, of example_env example_Xnew example_feat example_kern example_f]
    by simp
qed

text \<open>
  C9. With both flags set the error raised is the one of \<^verbatim>\<open>full_cov\<close>, which is checked
  first, and not the one of \<^verbatim>\<open>full_output_cov\<close>.
\<close>

theorem full_cov_checked_first:
  assumes "full_cov kw" "full_output_cov kw"
  shows "outcome (sample_conditional_impl env Xnew feat kern f kw)
           = Inl (NotImplementedError ''full_cov not yet implemented'')
       \<and> outcome (sample_conditional_impl env Xnew feat kern f kw)
           \<noteq> Inl (NotImplementedError ''full_output_cov not yet implemented'')"
  using assms run_rejected [of kw env Xnew feat kern f] by (simp add: outcome_def)

theorem full_cov_checked_first_witness:
  "full_cov (default_kwargs\<lparr>full_cov := True, full_output_cov := True\<rparr> :: unit kwargs)
   \<and> full_output_cov (default_kwargs\<lparr>full_cov := True, full_output_cov := True\<rparr> :: unit kwargs)
   \<and> outcome (sample_conditional_impl example_env example_Xnew example_feat example_kern example_f
         (default_kwargs\<lparr>full_cov := True, full_output_cov := True\<rparr>))
       = Inl (NotImplementedError ''full_cov not yet implemented'')
   \<and> outcome (sample_conditional_impl example_env example_Xnew example_feat example_kern example_f
         (default_kwargs\<lparr>full_cov := True, full_output_cov := True\<rparr>))
       \<noteq> Inl (NotImplementedError ''full_output_cov not yet implemented'')"
proof -
  have h1: "full_cov (default_kwargs\<lparr>full_cov := True, full_output_cov := True\<rparr> :: unit kwargs)"
    and h2: "full_output_cov (default_kwargs\<lparr>full_cov := True, full_output_cov := True\<rparr> :: unit kwargs)"
    by simp_all
  show ?thesis
    using h1 h2
      full_cov_checked_first [OF h1 h2, of example_env example_Xnew example_feat example_kern example_f]
    by simp
qed

section \<open>The latent moments and the latent sample\<close>

text \<open>
  C4. With both flags false, the function dispatches \<^verbatim>\<open>conditional\<close> on the signature
  \<^verbatim>\<open>(object, SeparateIndependentMof, SeparateIndependentMok, object)\<close> and calls the
  implementation found on \<^verbatim>\<open>Xnew, feat, kern, f\<close> with the caller's \<^verbatim>\<open>white\<close> and
  \<^verbatim>\<open>q_sqrt\<close>; the moments that call returns are the ones the sample is drawn from.
\<close>

theorem latent_moments_from_dispatch:
  assumes "\<not> full_cov kw" "\<not> full_output_cov kw"
    and "dispatch env (Object, SeparateIndependentMof, SeparateIndependentMok, Object) = Inr impl"
    and "impl Xnew feat kern f (white kw) (q_sqrt kw) = Inr (g_mu, g_var)"
  shows "take 4 (calls (sample_conditional_impl env Xnew feat kern f kw)) =
           [LogDebug debug_message,
            CallDispatch (Object, SeparateIndependentMof, SeparateIndependentMok, Object),
            CallConditional Xnew feat kern f (white kw) (q_sqrt kw),
            CallSampleMvn g_mu g_var ''diag'' (num_samples kw)]"
proof -
  note d = assms(3) [folded inner_signature_def]
  show ?thesis
  proof (cases "sample_mvn env g_mu g_var ''diag'' (num_samples kw)")
    case (Inl e)
    show ?thesis
      using run_sample_fails [OF assms(1,2) d assms(4) Inl]
      by (simp add: calls_def inner_signature_def)
  next
    case (Inr g_sample)
    show ?thesis
    proof (cases "mix_latent_gp env (W kern) g_mu g_var False False")
      case (Inl e)
      show ?thesis
        using run_mixing_fails [OF assms(1,2) d assms(4) Inr Inl]
        by (simp add: calls_def inner_signature_def)
    next
      case mixed: (Inr moments)
      obtain f_mu f_var where "moments = (f_mu, f_var)" by (cases moments)
      with mixed show ?thesis
        using run_mixed [OF assms(1,2) d assms(4) Inr, of f_mu f_var]
        by (simp add: calls_def inner_signature_def)
    qed
  qed
qed

theorem latent_moments_from_dispatch_witness:
  "\<not> full_cov example_kwargs \<and> \<not> full_output_cov example_kwargs
   \<and> dispatch example_env (Object, SeparateIndependentMof, SeparateIndependentMok, Object)
       = Inr example_conditional
   \<and> example_conditional example_Xnew example_feat example_kern example_f
         (white example_kwargs) (q_sqrt example_kwargs) = Inr (example_g_mu, example_g_var)
   \<and> take 4 (calls (sample_conditional_impl example_env example_Xnew example_feat example_kern
         example_f example_kwargs)) =
        [LogDebug debug_message,
         CallDispatch (Object, SeparateIndependentMof, SeparateIndependentMok, Object),
         CallConditional example_Xnew example_feat example_kern example_f False None,
         CallSampleMvn example_g_mu example_g_var ''diag'' (Some 2)]"
proof -
  have d: "dispatch example_env (Object, SeparateIndependentMof, SeparateIndependentMok, Object)
       = Inr example_conditional"
    using example_dispatch by (simp add: inner_signature_def)
  show ?thesis
    using latent_moments_from_dispatch [OF example_flags(1,2) d example_moments,
        of example_Xnew example_feat example_kern example_f]
      d example_flags example_moments
    by simp
qed

text \<open>
  C5. With both flags false and the latent moments computed, \<^verbatim>\<open>sample_mvn\<close> is called
  once, on those moments, with the tag \<^verbatim>\<open>"diag"\<close> and the caller's \<^verbatim>\<open>num_samples\<close>; it is
  never called with the tag \<^verbatim>\<open>"full"\<close>; and the sample the function returns is the
  contraction of the sample that call drew.
\<close>

theorem latent_sample_is_diag:
  assumes "\<not> full_cov kw" "\<not> full_output_cov kw"
    and "dispatch env inner_signature = Inr impl"
    and "impl Xnew feat kern f (white kw) (q_sqrt kw) = Inr (g_mu, g_var)"
  shows "filter is_sample_mvn (calls (sample_conditional_impl env Xnew feat kern f kw)) =
           [CallSampleMvn g_mu g_var ''diag'' (num_samples kw)]
       \<and> (\<forall>mu var ns. CallSampleMvn mu var ''full'' ns
              \<notin> set (calls (sample_conditional_impl env Xnew feat kern f kw)))
       \<and> (\<forall>g_sample f_sample f_mu f_var.
            sample_mvn env g_mu g_var ''diag'' (num_samples kw) = Inr g_sample \<longrightarrow>
            outcome (sample_conditional_impl env Xnew feat kern f kw) = Inr (f_sample, f_mu, f_var) \<longrightarrow>
            tensordot_last g_sample (W kern) = Inr f_sample)"
proof -
  let ?run = "sample_conditional_impl env Xnew feat kern f kw"
  obtain rest where rest:
    "calls ?run = [LogDebug debug_message, CallDispatch inner_signature,
        CallConditional Xnew feat kern f (white kw) (q_sqrt kw),
        CallSampleMvn g_mu g_var ''diag'' (num_samples kw)] @ rest"
    "list_all (\<lambda>e. \<not> is_sample_mvn e \<and> \<not> is_dispatch e) rest"
    using calls_after_sample [OF assms] by blast
  have none: "filter is_sample_mvn rest = []"
    using rest(2) by (simp add: list_all_iff)
  have drawn_once: "filter is_sample_mvn (calls ?run) = [CallSampleMvn g_mu g_var ''diag'' (num_samples kw)]"
    using rest(1) none by simp
  have no_full: "CallSampleMvn mu var ''full'' ns \<notin> set (calls ?run)" for mu var ns
  proof
    assume "CallSampleMvn mu var ''full'' ns \<in> set (calls ?run)"
    then have "CallSampleMvn mu var ''full'' ns \<in> set (filter is_sample_mvn (calls ?run))"
      by simp
    then show False unfolding drawn_once by simp
  qed
  from drawn_once no_full returned_sample [OF assms] show ?thesis
    by blast
qed

theorem latent_sample_is_diag_witness:
  "\<not> full_cov example_kwargs \<and> \<not> full_output_cov example_kwargs
   \<and> dispatch example_env inner_signature = Inr example_conditional
   \<and> example_conditional example_Xnew example_feat example_kern example_f
         (white example_kwargs) (q_sqrt example_kwargs) = Inr (example_g_mu, example_g_var)
   \<and> filter is_sample_mvn (calls (sample_conditional_impl example_env example_Xnew example_feat
         example_kern example_f example_kwargs)) =
        [CallSampleMvn example_g_mu example_g_var ''diag'' (Some 2)]
   \<and> CallSampleMvn example_g_mu example_g_var ''full'' (Some 2)
        \<notin> set (calls (sample_conditional_impl example_env example_Xnew example_feat
         example_kern example_f example_kwargs))
   \<and> sample_mvn example_env example_g_mu example_g_var ''diag'' (Some 2) = Inr example_g_sample
   \<and> outcome (sample_conditional_impl example_env example_Xnew example_feat
         example_kern example_f example_kwargs) = Inr (example_f_sample, example_f_mu, example_f_var)
   \<and> tensordot_last example_g_sample (W example_kern) = Inr example_f_sample"
proof -
  have mixing: "mix_latent_gp example_env (W example_kern) example_g_mu example_g_var False False
      = Inr (example_f_mu, example_f_var)"
    using example_mixing by (simp add: example_kern_def)
  have sample: "sample_mvn example_env example_g_mu example_g_var ''diag'' (num_samples example_kwargs)
      = Inr example_g_sample"
    using example_sample by (simp add: example_flags)
  have run: "outcome (sample_conditional_impl example_env example_Xnew example_feat
         example_kern example_f example_kwargs) = Inr (example_f_sample, example_f_mu, example_f_var)"
    using run_mixed [OF example_flags(1,2) example_dispatch example_moments sample mixing]
      example_contraction
    by (simp add: outcome_def example_kern_def)
  show ?thesis
    using latent_sample_is_diag [OF example_flags(1,2) example_dispatch example_moments,
        of example_Xnew example_feat example_kern example_f]
      example_flags example_dispatch example_moments example_sample run
    by simp
qed



section \<open>The value returned\<close>

text \<open>
  C6. With both flags false and every collaborator returning, the function returns
  the triple \<open>(f_sample, f_mu, f_var)\<close>, where \<open>(f_mu, f_var)\<close> is what \<^verbatim>\<open>mix_latent_gp\<close>
  returns on \<^verbatim>\<open>kern.W\<close>, the latent moments and the two flags. When \<^verbatim>\<open>mix_latent_gp\<close>
  keeps the contract of the mixing transform, \<open>f_mu[..., p]\<close> is the sum over \<open>l\<close> of
  \<open>g_mu[..., l] * W[p, l]\<close> and \<open>f_var[..., p]\<close> is the sum over \<open>l\<close> of
  \<open>W[p, l]\<^sup>2 * g_var[..., l]\<close>.
\<close>

theorem happy_path_returns_triple:
  fixes env :: "(real, 'v) env"
  assumes "\<not> full_cov kw" "\<not> full_output_cov kw"
    and "dispatch env inner_signature = Inr impl"
    and "impl Xnew feat kern f (white kw) (q_sqrt kw) = Inr (g_mu, g_var)"
    and "sample_mvn env g_mu g_var ''diag'' (num_samples kw) = Inr g_sample"
    and "mix_latent_gp env (W kern) g_mu g_var (full_cov kw) (full_output_cov kw) = Inr (f_mu, f_var)"
    and sample: "shape g_sample = es @ [L]"
    and mixing: "shape (W kern) = [P, L]"
  shows "\<exists>f_sample.
           tensordot_last g_sample (W kern) = Inr f_sample
         \<and> outcome (sample_conditional_impl env Xnew feat kern f kw) = Inr (f_sample, f_mu, f_var)
         \<and> CallMixLatentGp (W kern) g_mu g_var (full_cov kw) (full_output_cov kw)
             \<in> set (calls (sample_conditional_impl env Xnew feat kern f kw))
         \<and> (mix_latent_gp_diag (W kern) g_mu g_var = Inr (f_mu, f_var) \<longrightarrow>
            wf_tensor g_mu \<longrightarrow> wf_tensor g_var \<longrightarrow> wf_tensor (W kern) \<longrightarrow>
            shape g_mu = ds @ [L] \<longrightarrow> shape g_var = ds @ [L] \<longrightarrow>
            valid_index ds i \<longrightarrow> p < P \<longrightarrow>
              entry_at f_mu (i @ [p]) = (\<Sum>l<L. entry_at g_mu (i @ [l]) * entry_at (W kern) [p, l])
            \<and> entry_at f_var (i @ [p])
                = (\<Sum>l<L. (entry_at (W kern) [p, l])\<^sup>2 * entry_at g_var (i @ [l])))"
proof -
  have shW: "shape (W kern) = [P] @ [L]" using mixing by simp
  from tensordot_last_defined [OF sample shW]
  obtain f_sample where c: "tensordot_last g_sample (W kern) = Inr f_sample" ..
  have mixed: "mix_latent_gp env (W kern) g_mu g_var False False = Inr (f_mu, f_var)"
    using assms(1,2,6) by simp
  have run: "sample_conditional_impl env Xnew feat kern f kw =
     (Inr (f_sample, f_mu, f_var),
      [LogDebug debug_message, CallDispatch inner_signature,
        CallConditional Xnew feat kern f (white kw) (q_sqrt kw),
        CallSampleMvn g_mu g_var ''diag'' (num_samples kw),
        CallMixLatentGp (W kern) g_mu g_var False False,
        CallTensordot g_sample (W kern)])"
    using run_mixed [OF assms(1-5) mixed] c by simp
  have "entry_at f_mu (i @ [p]) = (\<Sum>l<L. entry_at g_mu (i @ [l]) * entry_at (W kern) [p, l])
      \<and> entry_at f_var (i @ [p]) = (\<Sum>l<L. (entry_at (W kern) [p, l])\<^sup>2 * entry_at g_var (i @ [l]))"
    if contract: "mix_latent_gp_diag (W kern) g_mu g_var = Inr (f_mu, f_var)"
      and wf: "wf_tensor g_mu" "wf_tensor g_var" "wf_tensor (W kern)"
      and sh: "shape g_mu = ds @ [L]" "shape g_var = ds @ [L]"
      and idx: "valid_index ds i" "p < P"
    using mix_latent_gp_diag_entries [OF contract wf sh mixing idx] by simp
  with run c assms(1,2) show ?thesis
    by (simp add: outcome_def calls_def)
qed

theorem happy_path_returns_triple_witness:
  "\<not> full_cov example_kwargs \<and> \<not> full_output_cov example_kwargs
   \<and> dispatch example_env inner_signature = Inr example_conditional
   \<and> example_conditional example_Xnew example_feat example_kern example_f
         (white example_kwargs) (q_sqrt example_kwargs) = Inr (example_g_mu, example_g_var)
   \<and> sample_mvn example_env example_g_mu example_g_var ''diag'' (num_samples example_kwargs)
       = Inr example_g_sample
   \<and> mix_latent_gp example_env (W example_kern) example_g_mu example_g_var
         (full_cov example_kwargs) (full_output_cov example_kwargs) = Inr (example_f_mu, example_f_var)
   \<and> shape example_g_sample = [2, 2] @ [2] \<and> shape (W example_kern) = [3, 2]
   \<and> mix_latent_gp_diag (W example_kern) example_g_mu example_g_var = Inr (example_f_mu, example_f_var)
   \<and> wf_tensor example_g_mu \<and> wf_tensor example_g_var \<and> wf_tensor (W example_kern)
   \<and> shape example_g_mu = [2] @ [2] \<and> shape example_g_var = [2] @ [2]
   \<and> valid_index [2] [1] \<and> (2::nat) < 3
   \<and> (\<exists>f_sample.
         tensordot_last example_g_sample (W example_kern) = Inr f_sample
       \<and> outcome (sample_conditional_impl example_env example_Xnew example_feat example_kern
           example_f example_kwargs) = Inr (f_sample, example_f_mu, example_f_var)
       \<and> CallMixLatentGp (W example_kern) example_g_mu example_g_var False False
           \<in> set (calls (sample_conditional_impl example_env example_Xnew example_feat example_kern
             example_f example_kwargs))
       \<and> entry_at example_f_mu ([1] @ [2])
           = (\<Sum>l<2. entry_at example_g_mu ([1] @ [l]) * entry_at (W example_kern) [2, l])
       \<and> entry_at example_f_var ([1] @ [2])
           = (\<Sum>l<2. (entry_at (W example_kern) [2, l])\<^sup>2 * entry_at example_g_var ([1] @ [l])))"
proof -
  have sample: "sample_mvn example_env example_g_mu example_g_var ''diag'' (num_samples example_kwargs)
      = Inr example_g_sample"
    using example_sample by (simp add: example_flags)
  have mixing: "mix_latent_gp example_env (W example_kern) example_g_mu example_g_var
         (full_cov example_kwargs) (full_output_cov example_kwargs) = Inr (example_f_mu, example_f_var)"
    using example_mixing by (simp add: example_W_kern example_flags)
  have contract: "mix_latent_gp_diag (W example_kern) example_g_mu example_g_var
      = Inr (example_f_mu, example_f_var)"
    using example_mixing by (simp add: example_W_kern example_contract)
  have idx: "valid_index [2] [1]" "(2::nat) < 3" by simp_all
  have W: "wf_tensor (W example_kern)" "shape (W example_kern) = [3, 2]"
    using example_wf(3) example_shapes(3) by (simp_all add: example_W_kern)
  note hyps = example_flags(1,2) example_dispatch example_moments sample mixing
    example_shapes(4) W(2)
  note inner = contract example_wf(1,2) W(1) example_shapes(1,2) idx
  from happy_path_returns_triple [OF hyps, of example_Xnew example_feat example_f "[2]" "[1]" 2]
    inner hyps
  show ?thesis
    by (simp add: example_flags)
qed

text \<open>
  C2. With both flags false and the collaborators returning, the sample returned is
  the contraction of the latent sample with \<open>W\<close> along the latent axis:
  \<open>f_sample[..., p]\<close> is the sum over \<open>l\<close> of \<open>g_sample[..., l] * W[p, l]\<close>.
\<close>

theorem output_sample_is_contraction:
  assumes "\<not> full_cov kw" "\<not> full_output_cov kw"
    and "dispatch env inner_signature = Inr impl"
    and "impl Xnew feat kern f (white kw) (q_sqrt kw) = Inr (g_mu, g_var)"
    and "sample_mvn env g_mu g_var ''diag'' (num_samples kw) = Inr g_sample"
    and "mix_latent_gp env (W kern) g_mu g_var False False = Inr (f_mu, f_var)"
    and wf: "wf_tensor g_sample" "wf_tensor (W kern)"
    and sh: "shape g_sample = ds @ [L]" "shape (W kern) = [P, L]"
    and idx: "valid_index ds i" "p < P"
  shows "\<exists>f_sample.
           outcome (sample_conditional_impl env Xnew feat kern f kw) = Inr (f_sample, f_mu, f_var)
         \<and> entry_at f_sample (i @ [p])
             = (\<Sum>l<L. entry_at g_sample (i @ [l]) * entry_at (W kern) [p, l])"
proof -
  have shW: "shape (W kern) = [P] @ [L]" using sh(2) by simp
  from tensordot_last_defined [OF sh(1) shW]
  obtain f_sample where c: "tensordot_last g_sample (W kern) = Inr f_sample" ..
  have p: "valid_index [P] [p]" using idx(2) by simp
  have "entry_at f_sample (i @ [p])
      = (\<Sum>l<L. entry_at g_sample (i @ [l]) * entry_at (W kern) [p, l])"
    using tensordot_last_entry [OF c wf sh(1) shW idx(1) p] by simp
  moreover have "outcome (sample_conditional_impl env Xnew feat kern f kw)
      = Inr (f_sample, f_mu, f_var)"
    using run_mixed [OF assms(1-6)] c by (simp add: outcome_def)
  ultimately show ?thesis by blast
qed

theorem output_sample_is_contraction_witness:
  "\<not> full_cov example_kwargs \<and> \<not> full_output_cov example_kwargs
   \<and> dispatch example_env inner_signature = Inr example_conditional
   \<and> example_conditional example_Xnew example_feat example_kern example_f
         (white example_kwargs) (q_sqrt example_kwargs) = Inr (example_g_mu, example_g_var)
   \<and> sample_mvn example_env example_g_mu example_g_var ''diag'' (num_samples example_kwargs)
       = Inr example_g_sample
   \<and> mix_latent_gp example_env (W example_kern) example_g_mu example_g_var False False
       = Inr (example_f_mu, example_f_var)
   \<and> wf_tensor example_g_sample \<and> wf_tensor (W example_kern)
   \<and> shape example_g_sample = [2, 2] @ [2] \<and> shape (W example_kern) = [3, 2]
   \<and> valid_index [2, 2] [1, 1] \<and> (2::nat) < 3
   \<and> (\<exists>f_sample.
         outcome (sample_conditional_impl example_env example_Xnew example_feat example_kern
           example_f example_kwargs) = Inr (f_sample, example_f_mu, example_f_var)
       \<and> entry_at f_sample ([1, 1] @ [2])
           = (\<Sum>l<2. entry_at example_g_sample ([1, 1] @ [l]) * entry_at (W example_kern) [2, l]))"
proof -
  have sample: "sample_mvn example_env example_g_mu example_g_var ''diag'' (num_samples example_kwargs)
      = Inr example_g_sample"
    using example_sample by (simp add: example_flags)
  have mixing: "mix_latent_gp example_env (W example_kern) example_g_mu example_g_var False False
      = Inr (example_f_mu, example_f_var)"
    using example_mixing by (simp add: example_W_kern)
  have W: "wf_tensor (W example_kern)" "shape (W example_kern) = [3, 2]"
    using example_wf(3) example_shapes(3) by (simp_all add: example_W_kern)
  have idx: "valid_index [2, 2] [1, 1]" "(2::nat) < 3" by simp_all
  note hyps = example_flags(1,2) example_dispatch example_moments sample mixing
    example_wf(4) W(1) example_shapes(4) W(2) idx
  from output_sample_is_contraction [OF hyps, of example_Xnew example_feat example_f] hyps
  show ?thesis by blast
qed

text \<open>
  C3. With the latent moments of shape \<open>[..., N, L]\<close>, a latent sample of the shape
  \<^verbatim>\<open>sample_mvn\<close> promises and \<open>W\<close> of shape \<open>[P, L]\<close>, the sample returned has shape
  \<open>[..., N, P]\<close> when \<^verbatim>\<open>num_samples\<close> is \<^verbatim>\<open>None\<close> and \<open>[..., S, N, P]\<close> when it is \<open>S\<close>.
\<close>

theorem output_sample_shape:
  assumes "\<not> full_cov kw" "\<not> full_output_cov kw"
    and "dispatch env inner_signature = Inr impl"
    and "impl Xnew feat kern f (white kw) (q_sqrt kw) = Inr (g_mu, g_var)"
    and "sample_mvn env g_mu g_var ''diag'' (num_samples kw) = Inr g_sample"
    and "mix_latent_gp env (W kern) g_mu g_var False False = Inr (f_mu, f_var)"
    and moments: "shape g_mu = lead @ [N, L]"
    and sample: "shape g_sample = sample_shape (shape g_mu) (num_samples kw)"
    and mixing: "shape (W kern) = [P, L]"
  shows "\<exists>f_sample.
           outcome (sample_conditional_impl env Xnew feat kern f kw) = Inr (f_sample, f_mu, f_var)
         \<and> shape f_sample =
             (case num_samples kw of
                None \<Rightarrow> lead @ [N, P]
              | Some S \<Rightarrow> lead @ [nat S, N, P])"
proof -
  have g: "shape g_sample = (lead @ sample_axis (num_samples kw) @ [N]) @ [L]"
    using sample moments by (simp add: sample_shape_moments)
  have shW: "shape (W kern) = [P] @ [L]" using mixing by simp
  from tensordot_last_defined [OF g shW]
  obtain f_sample where c: "tensordot_last g_sample (W kern) = Inr f_sample" ..
  have "butlast (shape g_sample) = lead @ sample_axis (num_samples kw) @ [N]"
    unfolding g by (simp only: butlast_snoc)
  then have "shape f_sample = lead @ sample_axis (num_samples kw) @ [N, P]"
    using tensordot_last_shape [OF c] mixing by simp
  then have "shape f_sample =
      (case num_samples kw of None \<Rightarrow> lead @ [N, P] | Some S \<Rightarrow> lead @ [nat S, N, P])"
    by (simp add: sample_axis_def split: option.splits)
  moreover have "outcome (sample_conditional_impl env Xnew feat kern f kw)
      = Inr (f_sample, f_mu, f_var)"
    using run_mixed [OF assms(1-6)] c by (simp add: outcome_def)
  ultimately show ?thesis by blast
qed

theorem output_sample_shape_witness:
  "\<not> full_cov example_kwargs \<and> \<not> full_output_cov example_kwargs
   \<and> dispatch example_env inner_signature = Inr example_conditional
   \<and> example_conditional example_Xnew example_feat example_kern example_f
         (white example_kwargs) (q_sqrt example_kwargs) = Inr (example_g_mu, example_g_var)
   \<and> sample_mvn example_env example_g_mu example_g_var ''diag'' (num_samples example_kwargs)
       = Inr example_g_sample
   \<and> mix_latent_gp example_env (W example_kern) example_g_mu example_g_var False False
       = Inr (example_f_mu, example_f_var)
   \<and> shape example_g_mu = [] @ [2, 2]
   \<and> shape example_g_sample = sample_shape (shape example_g_mu) (num_samples example_kwargs)
   \<and> shape (W example_kern) = [3, 2]
   \<and> num_samples example_kwargs = Some 2
   \<and> (\<exists>f_sample.
         outcome (sample_conditional_impl example_env example_Xnew example_feat example_kern
           example_f example_kwargs) = Inr (f_sample, example_f_mu, example_f_var)
       \<and> shape f_sample = [] @ [nat 2, 2, 3])"
proof -
  have sample: "sample_mvn example_env example_g_mu example_g_var ''diag'' (num_samples example_kwargs)
      = Inr example_g_sample"
    using example_sample by (simp add: example_flags)
  have mixing: "mix_latent_gp example_env (W example_kern) example_g_mu example_g_var False False
      = Inr (example_f_mu, example_f_var)"
    using example_mixing by (simp add: example_W_kern)
  have W: "shape (W example_kern) = [3, 2]"
    using example_shapes(3) by (simp add: example_W_kern)
  have mu: "shape example_g_mu = [] @ [2, 2]"
    by (simp add: example_g_mu_def)
  have drawn: "shape example_g_sample = sample_shape (shape example_g_mu) (num_samples example_kwargs)"
    by (simp add: example_g_sample_def example_g_mu_def sample_shape_def sample_axis_def example_flags)
  note hyps = example_flags(1,2) example_dispatch example_moments sample mixing mu drawn W
  from output_sample_shape [OF hyps, of example_Xnew example_feat example_f] hyps example_flags(5)
  show ?thesis by simp
qed

text \<open>
  C7. When \<open>W\<close> is the identity matrix and every entry of the latent sample and of
  the latent moments is finite, mixing changes nothing: the function returns the
  latent sample and the latent moments themselves, given a \<^verbatim>\<open>mix_latent_gp\<close> that keeps
  the contract of the mixing transform. The claim as stated, for every call, fails: the
  contraction multiplies an infinite entry by the zeros of the identity, which is NaN,
  so a sample \<open>[inf, 3]\<close> comes back as \<open>[inf, NaN]\<close>, and so does a variance
  \<open>[inf, 4]\<close>.
\<close>

theorem identity_mixing_is_noop_when_finite:
  fixes env :: "(ieee, 'v) env"
  assumes "\<not> full_cov kw" "\<not> full_output_cov kw"
    and "dispatch env inner_signature = Inr impl"
    and "impl Xnew feat kern f (white kw) (q_sqrt kw) = Inr (g_mu, g_var)"
    and "sample_mvn env g_mu g_var ''diag'' (num_samples kw) = Inr g_sample"
    and identity: "W kern = identity_matrix L"
    and contract: "mix_latent_gp env (W kern) g_mu g_var False False
        = mix_latent_gp_diag (W kern) g_mu g_var"
    and wf: "wf_tensor g_mu" "wf_tensor g_var" "wf_tensor g_sample"
    and sh: "shape g_mu = ds @ [L]" "shape g_var = ds @ [L]" "shape g_sample = es @ [L]"
    and finite: "all_finite g_mu" "all_finite g_var" "all_finite g_sample"
  shows "outcome (sample_conditional_impl env Xnew feat kern f kw) = Inr (g_sample, g_mu, g_var)"
proof -
  have "mix_latent_gp env (W kern) g_mu g_var False False = Inr (g_mu, g_var)"
    using contract mix_latent_gp_diag_identity_finite [OF wf(1,2) sh(1,2) finite(1,2)]
    by (simp add: identity)
  moreover have "tensordot_last g_sample (W kern) = Inr g_sample"
    using tensordot_last_identity_finite [OF wf(3) sh(3) finite(3)] by (simp add: identity)
  ultimately show ?thesis
    using run_mixed [OF assms(1-5), of g_mu g_var] by (simp add: outcome_def)
qed

theorem identity_mixing_is_noop_when_finite_witness:
  "\<not> full_cov (default_kwargs :: unit kwargs) \<and> \<not> full_output_cov (default_kwargs :: unit kwargs)
   \<and> dispatch (fixed_env finite_g_mu finite_g_var finite_g_sample) inner_signature
       = Inr (fixed_conditional finite_g_mu finite_g_var)
   \<and> fixed_conditional finite_g_mu finite_g_var example_Xnew example_feat identity_kern example_f
        (white (default_kwargs :: unit kwargs)) (q_sqrt (default_kwargs :: unit kwargs))
       = Inr (finite_g_mu, finite_g_var)
   \<and> sample_mvn (fixed_env finite_g_mu finite_g_var finite_g_sample)
        finite_g_mu finite_g_var ''diag'' (num_samples (default_kwargs :: unit kwargs))
       = Inr finite_g_sample
   \<and> W identity_kern = \<lparr>shape = [2, 2], entries = [Finite 1, Finite 0, Finite 0, Finite 1]\<rparr>
   \<and> W identity_kern = identity_matrix 2
   \<and> mix_latent_gp (fixed_env finite_g_mu finite_g_var finite_g_sample) (W identity_kern)
        finite_g_mu finite_g_var False False
       = mix_latent_gp_diag (W identity_kern) finite_g_mu finite_g_var
   \<and> wf_tensor finite_g_mu \<and> wf_tensor finite_g_var \<and> wf_tensor finite_g_sample
   \<and> shape finite_g_mu = [3] @ [2] \<and> shape finite_g_var = [3] @ [2]
   \<and> shape finite_g_sample = [3] @ [2]
   \<and> all_finite finite_g_mu \<and> all_finite finite_g_var \<and> all_finite finite_g_sample
   \<and> outcome (sample_conditional_impl (fixed_env finite_g_mu finite_g_var finite_g_sample)
        example_Xnew example_feat identity_kern example_f default_kwargs)
       = Inr (finite_g_sample, finite_g_mu, finite_g_var)"
proof -
  let ?env = "fixed_env finite_g_mu finite_g_var finite_g_sample"
  have sample: "sample_mvn ?env finite_g_mu finite_g_var ''diag''
      (num_samples (default_kwargs :: unit kwargs)) = Inr finite_g_sample"
    by (rule fixed_sample)
  have contract: "mix_latent_gp ?env (W identity_kern) finite_g_mu finite_g_var False False
      = mix_latent_gp_diag (W identity_kern) finite_g_mu finite_g_var"
    by (rule fixed_contract)
  have wf: "wf_tensor finite_g_mu" "wf_tensor finite_g_var" "wf_tensor finite_g_sample"
    by (simp_all add: wf_tensor_def finite_g_mu_def finite_g_var_def finite_g_sample_def)
  have sh: "shape finite_g_mu = [3] @ [2]" "shape finite_g_var = [3] @ [2]"
    "shape finite_g_sample = [3] @ [2]"
    by (simp_all add: finite_g_mu_def finite_g_var_def finite_g_sample_def)
  have finite: "all_finite finite_g_mu" "all_finite finite_g_var" "all_finite finite_g_sample"
    by (simp_all add: all_finite_def finite_g_mu_def finite_g_var_def finite_g_sample_def)
  have moments: "fixed_conditional finite_g_mu finite_g_var example_Xnew example_feat identity_kern
      example_f (white (default_kwargs :: unit kwargs)) (q_sqrt (default_kwargs :: unit kwargs))
      = Inr (finite_g_mu, finite_g_var)"
    by (rule fixed_moments)
  note hyps = default_flags(1,2) fixed_dispatch moments sample identity_W contract wf sh finite
  from identity_mixing_is_noop_when_finite [OF hyps] hyps identity_matrix_two
  show ?thesis by simp
qed

theorem identity_mixing_counterexample:
  "\<not> full_cov (default_kwargs :: unit kwargs) \<and> \<not> full_output_cov (default_kwargs :: unit kwargs)
   \<and> W identity_kern = \<lparr>shape = [2, 2], entries = [Finite 1, Finite 0, Finite 0, Finite 1]\<rparr>
   \<and> sample_mvn (fixed_env infinite_g_mu infinite_g_var infinite_g_sample)
        infinite_g_mu infinite_g_var ''diag'' None = Inr infinite_g_sample
   \<and> wf_tensor infinite_g_mu \<and> wf_tensor infinite_g_var \<and> wf_tensor infinite_g_sample
   \<and> outcome (sample_conditional_impl (fixed_env infinite_g_mu infinite_g_var infinite_g_sample)
        example_Xnew example_feat identity_kern example_f default_kwargs)
       = Inr (\<lparr>shape = [1, 2], entries = [PosInf, NaN]\<rparr>, infinite_g_mu,
              \<lparr>shape = [1, 2], entries = [PosInf, NaN]\<rparr>)
   \<and> outcome (sample_conditional_impl (fixed_env infinite_g_mu infinite_g_var infinite_g_sample)
        example_Xnew example_feat identity_kern example_f default_kwargs)
       \<noteq> Inr (infinite_g_sample, infinite_g_mu, infinite_g_var)"
proof -
  let ?env = "fixed_env infinite_g_mu infinite_g_var infinite_g_sample"
  have mixing: "mix_latent_gp ?env (W identity_kern) infinite_g_mu infinite_g_var False False
      = Inr (infinite_g_mu, \<lparr>shape = [1, 2], entries = [PosInf, NaN]\<rparr>)"
    by (simp add: fixed_contract identity_W infinite_mixing)
  have sample: "sample_mvn ?env infinite_g_mu infinite_g_var ''diag''
      (num_samples (default_kwargs :: unit kwargs)) = Inr infinite_g_sample"
    by (rule fixed_sample)
  have run: "outcome (sample_conditional_impl ?env example_Xnew example_feat identity_kern
        example_f default_kwargs)
      = Inr (\<lparr>shape = [1, 2], entries = [PosInf, NaN]\<rparr>, infinite_g_mu,
             \<lparr>shape = [1, 2], entries = [PosInf, NaN]\<rparr>)"
    using run_mixed [OF default_flags(1,2) fixed_dispatch fixed_moments sample mixing]
    by (simp add: outcome_def identity_W infinite_contraction)
  have differs: "\<lparr>shape = [1, 2], entries = [PosInf, NaN]\<rparr> \<noteq> infinite_g_sample"
    by (simp add: infinite_g_sample_def)
  have wf: "wf_tensor infinite_g_mu" "wf_tensor infinite_g_var" "wf_tensor infinite_g_sample"
    by (simp_all add: wf_tensor_def infinite_g_mu_def infinite_g_var_def infinite_g_sample_def)
  from run differs wf default_flags(1,2) show ?thesis
    by (simp add: identity_W identity_matrix_two fixed_sample)
qed

section \<open>Dispatch resolution\<close>

text \<open>
  C8. In the registry as the spec describes it: once an implementation is registered
  for \<^verbatim>\<open>conditional\<close> under \<^verbatim>\<open>(object, SeparateIndependentMof, SeparateIndependentMok, object)\<close>,
  a dispatch on types that match, the two named classes or subtypes of them in the
  middle slots and any types in the outer ones, returns it, whether the wildcard-only
  pattern was registered before or is registered after, as long as every other
  matching pattern of the operation is less specific.
\<close>

theorem dispatch_prefers_most_specific:
  assumes subtypes: "slot_matches issubclass SeparateIndependentMof t2"
      "slot_matches issubclass SeparateIndependentMok t3"
    and others: "\<forall>e\<in>set reg. fst e = Conditional
        \<and> matches issubclass (fst (snd e)) (t1, t2, t3, t4)
        \<and> fst (snd e) \<noteq> inner_signature
        \<longrightarrow> more_specific inner_signature (fst (snd e))"
  shows "dispatch_registry issubclass (register Conditional inner_signature impl reg) Conditional
           (t1, t2, t3, t4) = Inr impl
       \<and> dispatch_registry issubclass
           (register Conditional wildcard_signature generic
             (register Conditional inner_signature impl reg)) Conditional
           (t1, t2, t3, t4) = Inr impl"
proof
  let ?types = "(t1, t2, t3, t4)"
  let ?reg1 = "register Conditional inner_signature impl reg"
  let ?reg2 = "register Conditional wildcard_signature generic ?reg1"
  note matching = inner_signature_matches [OF subtypes, of t1 t4]
  have in1: "(Conditional, inner_signature, impl) \<in> set ?reg1"
    by (simp add: register_def)
  have others1: "\<forall>e\<in>set ?reg1. fst e = Conditional \<and> matches issubclass (fst (snd e)) ?types
      \<and> snd e \<noteq> (inner_signature, impl) \<longrightarrow> more_specific inner_signature (fst (snd e))"
    using others by (auto simp: register_def)
  show "dispatch_registry issubclass ?reg1 Conditional ?types = Inr impl"
    using in1 matching others1 by (rule dispatch_unique_maximum)
  have in2: "(Conditional, inner_signature, impl) \<in> set ?reg2"
    using inner_not_wildcard by (simp add: register_def)
  have others2: "\<forall>e\<in>set ?reg2. fst e = Conditional \<and> matches issubclass (fst (snd e)) ?types
      \<and> snd e \<noteq> (inner_signature, impl) \<longrightarrow> more_specific inner_signature (fst (snd e))"
    using others inner_more_specific_than_wildcard by (auto simp: register_def)
  show "dispatch_registry issubclass ?reg2 Conditional ?types = Inr impl"
    using in2 matching others2 by (rule dispatch_unique_maximum)
qed

theorem dispatch_prefers_most_specific_witness:
  "example_issubclass (OtherClass ''MixedKernelSeparateMof'') SeparateIndependentMof
   \<and> OtherClass ''MixedKernelSeparateMof'' \<noteq> SeparateIndependentMof
   \<and> slot_matches example_issubclass SeparateIndependentMof (OtherClass ''MixedKernelSeparateMof'')
   \<and> slot_matches example_issubclass SeparateIndependentMok SeparateIndependentMok
   \<and> example_registry =
       [(Conditional, wildcard_signature, 0), (SampleConditional, registered_signature, 2)]
   \<and> more_specific inner_signature wildcard_signature
   \<and> dispatch_registry example_issubclass
        (register Conditional inner_signature 1 example_registry) Conditional
        (OtherClass ''Tensor'', OtherClass ''MixedKernelSeparateMof'', SeparateIndependentMok,
         OtherClass ''Tensor'')
       = Inr 1
   \<and> dispatch_registry example_issubclass
        (register Conditional wildcard_signature 3
          (register Conditional inner_signature 1 example_registry)) Conditional
        (OtherClass ''Tensor'', OtherClass ''MixedKernelSeparateMof'', SeparateIndependentMok,
         OtherClass ''Tensor'')
       = Inr 1"
proof -
  have reg: "example_registry =
     [(Conditional, wildcard_signature, 0), (SampleConditional, registered_signature, 2)]"
    by (simp add: example_registry_def register_def)
  have subtypes:
    "slot_matches example_issubclass SeparateIndependentMof (OtherClass ''MixedKernelSeparateMof'')"
    "slot_matches example_issubclass SeparateIndependentMok SeparateIndependentMok"
    by (simp_all add: slot_matches_def example_issubclass_def)
  have others: "\<forall>e\<in>set example_registry. fst e = Conditional
        \<and> matches example_issubclass (fst (snd e))
            (OtherClass ''Tensor'', OtherClass ''MixedKernelSeparateMof'', SeparateIndependentMok,
             OtherClass ''Tensor'')
        \<and> fst (snd e) \<noteq> inner_signature
        \<longrightarrow> more_specific inner_signature (fst (snd e))"
    using inner_more_specific_than_wildcard by (simp add: reg)
  from dispatch_prefers_most_specific [OF subtypes others, of 1 3] reg subtypes
    inner_more_specific_than_wildcard
  show ?thesis by (simp add: example_issubclass_def)
qed

end
